theory Spec2Isabelle
  imports Main
begin

section \<open>JavaScript values\<close>

text \<open>
  A JavaScript string is a sequence of UTF-16 code units; \<open>length\<close>, \<open>substring\<close>,
  \<open>===\<close>, \<open>split\<close> and \<open>trim\<close> all work on code units. A string is therefore a list of
  natural numbers, and \<open>js\<close> writes an ASCII literal in that form.
  A nullable value is an \<open>option\<close>; \<open>None\<close> stands for both \<open>null\<close> and a missing
  (\<open>undefined\<close>) property, which is also what a JSON round trip makes of them once the
  loaders have applied their \<open>|| null\<close> defaults.
\<close>

type_synonym jsstring = "nat list"

definition js :: "string \<Rightarrow> jsstring" where
  "js s = map of_char s"

text \<open>Truthiness of a nullable string: \<open>null\<close>, \<open>undefined\<close> and \<open>''\<close> are falsy.\<close>

definition truthy :: "jsstring option \<Rightarrow> bool" where
  "truthy v = (case v of None \<Rightarrow> False | Some s \<Rightarrow> s \<noteq> [])"

text \<open>\<open>v || null\<close>\<close>

definition or_null :: "jsstring option \<Rightarrow> jsstring option" where
  "or_null v = (if truthy v then v else None)"

text \<open>The string held by a nullable value that has been tested truthy.\<close>

definition str_of :: "jsstring option \<Rightarrow> jsstring" where
  "str_of v = (case v of None \<Rightarrow> [] | Some s \<Rightarrow> s)"

text \<open>
  White space as \<open>String.prototype.trim\<close> and the regular expression class \<open>\s\<close> see it:
  the ECMAScript WhiteSpace and LineTerminator code points.
\<close>

definition is_ws :: "nat \<Rightarrow> bool" where
  "is_ws c = (c = 9 \<or> c = 10 \<or> c = 11 \<or> c = 12 \<or> c = 13 \<or> c = 32 \<or> c = 160
      \<or> c = 5760 \<or> (8192 \<le> c \<and> c \<le> 8202) \<or> c = 8232 \<or> c = 8233 \<or> c = 8239
      \<or> c = 8287 \<or> c = 12288 \<or> c = 65279)"

definition trim :: "jsstring \<Rightarrow> jsstring" where
  "trim s = rev (dropWhile is_ws (rev (dropWhile is_ws s)))"

text \<open>\<open>s.split(sep)\<close> for a one-character separator: never empty, \<open>''.split(sep) = ['']\<close>.\<close>

fun split_on :: "nat \<Rightarrow> jsstring \<Rightarrow> jsstring list" where
  "split_on sep [] = [[]]"
| "split_on sep (c # cs) =
     (if c = sep then [] # split_on sep cs
      else (case split_on sep cs of
              [] \<Rightarrow> [[c]]
            | w # ws \<Rightarrow> (c # w) # ws))"

text \<open>\<open>parts.join(sep)\<close>\<close>

fun join_with :: "jsstring \<Rightarrow> jsstring list \<Rightarrow> jsstring" where
  "join_with sep [] = []"
| "join_with sep [w] = w"
| "join_with sep (w # ws) = w @ sep @ join_with sep ws"

section \<open>Data model\<close>

text \<open>\<open>reasoningStage\<close>: \<open>'classifying' | 'rewritten' | 'answering' | 'done'\<close>.\<close>

datatype stage = Classifying | Rewritten | Answering | Done

text \<open>
  \<open>chosenPromptVersion\<close> (\<open>PromptChoice\<close> in AgentReasoningModal.tsx):
  \<open>'original' | 'rewritten' | 'edited'\<close>.
\<close>

datatype variant = V_original | V_rewritten | V_edited

text \<open>\<open>promptFeedback\<close> is a string, or already an array of bullets.\<close>

datatype feedback = FeedbackText jsstring | FeedbackList "jsstring list"

definition fb_truthy :: "feedback option \<Rightarrow> bool" where
  "fb_truthy v = (case v of None \<Rightarrow> False
                  | Some (FeedbackText s) \<Rightarrow> s \<noteq> []
                  | Some (FeedbackList bs) \<Rightarrow> True)"

definition fb_or_null :: "feedback option \<Rightarrow> feedback option" where
  "fb_or_null v = (if fb_truthy v then v else None)"

text \<open>
  A turn object, with the property names of Interaction.jsx (\<open>id\<close>, \<open>conversationId\<close> and
  \<open>mode\<close> carry the prefix \<open>turn_\<close>, since the component state has variables of the
  same names). \<open>reasoningStage\<close> and \<open>showReasoning\<close> are optional because the loaders
  default them for objects persisted by older versions.
\<close>

record turn =
  turn_id :: jsstring
  turn_conversationId :: "jsstring option"
  originalPrompt :: jsstring
  turn_mode :: "jsstring option"
  intent :: "jsstring option"
  topic :: "jsstring option"
  rewritten_prompt :: "jsstring option"
  rewrite_strategy :: "jsstring option"
  edited_prompt :: "jsstring option"
  final_answer :: "jsstring option"
  decisionRationale :: "jsstring option"
  promptFeedback :: "feedback option"
  reasoningStage :: "stage option"
  chosenPromptVersion :: "variant option"
  interaction_id :: "jsstring option"
  showReasoning :: "bool option"

text \<open>The body of a successful \<open>/interact\<close> response (\<open>InteractResponse\<close> in types.ts).\<close>

record interact_response =
  r_interaction_id :: "jsstring option"
  r_conversationId :: "jsstring option"
  r_intent :: "jsstring option"
  r_topic :: "jsstring option"
  r_rewritten_prompt :: "jsstring option"
  r_rewrite_strategy :: "jsstring option"
  r_decisionRationale :: "jsstring option"
  r_promptFeedback :: "feedback option"
  r_final_answer :: "jsstring option"
  r_showReasoning :: "bool option"

text \<open>The body of the \<open>/answer\<close> request.\<close>

record answer_request =
  a_prompt :: jsstring
  a_mode :: "jsstring option"
  a_intent :: "jsstring option"
  a_topic :: "jsstring option"
  a_interaction_id :: "jsstring option"
  a_conversationId :: "jsstring option"
  a_chosen_version :: variant
  a_original_prompt :: jsstring
  a_rewritten_prompt :: "jsstring option"

text \<open>
  A remote call issued with \<open>fetch\<close>: \<open>Interact prompt enhancerEnabled mode conversationId\<close>
  or \<open>Answer body\<close>.
\<close>

datatype request =
  Interact jsstring bool "jsstring option" "jsstring option"
| Answer answer_request

text \<open>An entry of the \<open>conversations\<close> object.\<close>

record conversation =
  conv_turns :: "turn list"
  title :: jsstring
  updatedAt :: int

record confirm_dialog =
  isOpen :: bool
  dialog_conversationId :: "jsstring option"

text \<open>
  The state of the \<open>Interaction\<close> component (its \<open>useState\<close> variables), the two
  \<open>localStorage\<close> entries it writes, and the log of the remote calls it has issued.
  The \<open>conversations\<close> object is an association list in the enumeration order of its
  keys, which \<open>Object.keys\<close> and \<open>JSON.stringify\<close> follow.
\<close>

record app_state =
  prompt :: jsstring
  enhancerEnabled :: bool
  mode :: jsstring
  loading :: bool
  turns :: "turn list"
  conversationId :: "jsstring option"
  conversations :: "(jsstring \<times> conversation) list"
  error :: "jsstring option"
  modalTurnId :: "jsstring option"
  draftRewrite :: jsstring
  regenerating :: bool
  pendingTurn :: "turn option"
  deleteConfirmDialog :: confirm_dialog
  localStorage_conversations :: "(jsstring \<times> conversation) list option"
  localStorage_active :: "jsstring option"
  requests :: "request list"

definition initial_state :: app_state where
  "initial_state =
     \<lparr> prompt = [], enhancerEnabled = True, mode = js ''learning'', loading = False,
       turns = [], conversationId = None, conversations = [], error = None,
       modalTurnId = None, draftRewrite = [], regenerating = False, pendingTurn = None,
       deleteConfirmDialog = \<lparr> isOpen = False, dialog_conversationId = None \<rparr>,
       localStorage_conversations = None, localStorage_active = None, requests = [] \<rparr>"

section \<open>Objects with string keys\<close>

text \<open>
  Own string keys of a JavaScript object are enumerated with the array indices first
  (canonical decimal numerals below \<open>2^32 - 1\<close>), in ascending numeric order, and then
  the other keys in the order in which they were first added. Assigning to an existing
  key keeps its position.
\<close>

definition is_digit :: "nat \<Rightarrow> bool" where
  "is_digit c = (48 \<le> c \<and> c \<le> 57)"

definition index_value :: "jsstring \<Rightarrow> nat" where
  "index_value k = foldl (\<lambda>n c. 10 * n + (c - 48)) 0 k"

definition is_array_index :: "jsstring \<Rightarrow> bool" where
  "is_array_index k =
     (k \<noteq> [] \<and> list_all is_digit k \<and> (k = [48] \<or> take 1 k \<noteq> [48])
      \<and> index_value k < 4294967295)"

fun insert_index :: "jsstring \<Rightarrow> 'v \<Rightarrow> (jsstring \<times> 'v) list \<Rightarrow> (jsstring \<times> 'v) list" where
  "insert_index k v [] = [(k, v)]"
| "insert_index k v ((k', v') # al) =
     (if is_array_index k' \<and> index_value k' < index_value k
      then (k', v') # insert_index k v al
      else (k, v) # (k', v') # al)"

definition obj_keys :: "(jsstring \<times> 'v) list \<Rightarrow> jsstring list" where
  "obj_keys al = map fst al"

definition obj_get :: "jsstring \<Rightarrow> (jsstring \<times> 'v) list \<Rightarrow> 'v option" where
  "obj_get k al = map_of al k"

text \<open>\<open>{ ...prev, [k]: v }\<close>\<close>

definition obj_set :: "jsstring \<Rightarrow> 'v \<Rightarrow> (jsstring \<times> 'v) list \<Rightarrow> (jsstring \<times> 'v) list" where
  "obj_set k v al =
     (if k \<in> set (obj_keys al) then map (\<lambda>(k', v'). if k' = k then (k', v) else (k', v')) al
      else if is_array_index k then insert_index k v al
      else al @ [(k, v)])"

text \<open>\<open>delete updated[k]\<close>\<close>

definition obj_delete :: "jsstring \<Rightarrow> (jsstring \<times> 'v) list \<Rightarrow> (jsstring \<times> 'v) list" where
  "obj_delete k al = filter (\<lambda>(k', v'). k' \<noteq> k) al"

section \<open>Turn Workflow Orchestrator\<close>

subsection \<open>The object updates applied to a turn\<close>

text \<open>handleSubmit, enhancer disabled: the turn that goes straight to the chat feed.\<close>

definition newTurn_direct :: "jsstring \<Rightarrow> app_state \<Rightarrow> turn" where
  "newTurn_direct turnId s =
     \<lparr> turn_id = turnId,
       turn_conversationId =
         (if truthy (conversationId s) then conversationId s else Some (js ''pending'')),
       originalPrompt = prompt s, turn_mode = None, intent = None, topic = None,
       rewritten_prompt = None, rewrite_strategy = None, edited_prompt = None,
       final_answer = None, decisionRationale = None, promptFeedback = None,
       reasoningStage = Some Answering, chosenPromptVersion = Some V_original,
       interaction_id = None, showReasoning = Some False \<rparr>"

text \<open>handleSubmit, enhancer enabled: the pending turn shown in the modal.\<close>

definition newTurn_enhanced :: "jsstring \<Rightarrow> app_state \<Rightarrow> turn" where
  "newTurn_enhanced turnId s =
     \<lparr> turn_id = turnId,
       turn_conversationId =
         (if truthy (conversationId s) then conversationId s else Some (js ''pending'')),
       originalPrompt = prompt s, turn_mode = Some (mode s), intent = None, topic = None,
       rewritten_prompt = None, rewrite_strategy = None, edited_prompt = None,
       final_answer = None, decisionRationale = None, promptFeedback = None,
       reasoningStage = Some Classifying, chosenPromptVersion = None,
       interaction_id = None, showReasoning = Some True \<rparr>"

text \<open>handleSubmit, enhancer disabled, the \<open>/interact\<close> response carries the answer.\<close>

definition direct_answered_patch :: "interact_response \<Rightarrow> turn \<Rightarrow> turn" where
  "direct_answered_patch d t =
     t\<lparr> turn_conversationId := r_conversationId d,
        final_answer := r_final_answer d,
        decisionRationale := r_decisionRationale d,
        reasoningStage := Some Done,
        interaction_id := r_interaction_id d,
        showReasoning := Some (case r_showReasoning d of None \<Rightarrow> False | Some b \<Rightarrow> b) \<rparr>"

text \<open>
  The \<open>catch\<close> branches of the answer calls (handleSubmit with the enhancer disabled,
  and choosePromptVersion): \<open>final_answer: `Error: ${err.message}`\<close>.
\<close>

definition answer_failed_patch :: "jsstring \<Rightarrow> turn \<Rightarrow> turn" where
  "answer_failed_patch msg t =
     t\<lparr> final_answer := Some (js ''Error: '' @ msg), reasoningStage := Some Done \<rparr>"

text \<open>handleSubmit, enhancer enabled, classification and rewrite arrived.\<close>

definition classified_patch :: "interact_response \<Rightarrow> turn \<Rightarrow> turn" where
  "classified_patch d t =
     t\<lparr> turn_conversationId := r_conversationId d,
        intent := r_intent d,
        topic := r_topic d,
        rewritten_prompt := r_rewritten_prompt d,
        rewrite_strategy := r_rewrite_strategy d,
        decisionRationale := r_decisionRationale d,
        promptFeedback := r_promptFeedback d,
        interaction_id := r_interaction_id d,
        showReasoning := Some (case r_showReasoning d of None \<Rightarrow> True | Some b \<Rightarrow> b),
        reasoningStage := Some Rewritten \<rparr>"

text \<open>handleSubmit, enhancer enabled, the classification call failed.\<close>

definition classify_failed_patch :: "jsstring \<Rightarrow> turn \<Rightarrow> turn" where
  "classify_failed_patch msg t =
     t\<lparr> intent := Some (js ''error''),
        topic := Some [],
        rewritten_prompt := None,
        rewrite_strategy := None,
        final_answer := Some (js ''Error: '' @ msg),
        reasoningStage := Some Done \<rparr>"

text \<open>choosePromptVersion: the turn as it enters the chat feed, awaiting its answer.\<close>

definition chosen_patch :: "variant \<Rightarrow> jsstring option \<Rightarrow> turn \<Rightarrow> turn" where
  "chosen_patch actualVersion finalEditedPrompt t =
     t\<lparr> chosenPromptVersion := Some actualVersion,
        edited_prompt := finalEditedPrompt,
        reasoningStage := Some Answering,
        final_answer := None \<rparr>"

text \<open>choosePromptVersion: the answer arrived.\<close>

definition answered_patch :: "jsstring option \<Rightarrow> turn \<Rightarrow> turn" where
  "answered_patch answer t = t\<lparr> final_answer := answer, reasoningStage := Some Done \<rparr>"

text \<open>handleRegenerate, for the pending turn and for a turn of the chat feed.\<close>

definition regenerated_patch_pending :: "interact_response \<Rightarrow> turn \<Rightarrow> turn" where
  "regenerated_patch_pending d t =
     t\<lparr> rewritten_prompt := or_null (r_rewritten_prompt d),
        rewrite_strategy := r_rewrite_strategy d,
        decisionRationale := r_decisionRationale d,
        promptFeedback := r_promptFeedback d,
        edited_prompt := None,
        interaction_id := r_interaction_id d \<rparr>"

definition regenerated_patch_listed :: "interact_response \<Rightarrow> turn \<Rightarrow> turn" where
  "regenerated_patch_listed d t =
     t\<lparr> rewritten_prompt := or_null (r_rewritten_prompt d),
        rewrite_strategy := r_rewrite_strategy d,
        decisionRationale := r_decisionRationale d,
        promptFeedback := r_promptFeedback d,
        edited_prompt := None \<rparr>"

text \<open>\<open>prev.map(t => t.id === turnId ? patch(t) : t)\<close>\<close>

definition update_turn :: "jsstring \<Rightarrow> (turn \<Rightarrow> turn) \<Rightarrow> turn list \<Rightarrow> turn list" where
  "update_turn turnId patch ts = map (\<lambda>t. if turn_id t = turnId then patch t else t) ts"

text \<open>\<open>pendingTurn?.id === turnId\<close>\<close>

definition pending_is :: "jsstring \<Rightarrow> turn option \<Rightarrow> bool" where
  "pending_is turnId p = (case p of None \<Rightarrow> False | Some t \<Rightarrow> turn_id t = turnId)"

text \<open>\<open>turns.find(t => t.id === turnId)\<close>\<close>

definition find_turn :: "jsstring \<Rightarrow> turn list \<Rightarrow> turn option" where
  "find_turn turnId ts = List.find (\<lambda>t. turn_id t = turnId) ts"

text \<open>\<open>pendingTurn?.id === turnId ? pendingTurn : turns.find(t => t.id === turnId)\<close>\<close>

definition lookup_turn :: "jsstring \<Rightarrow> app_state \<Rightarrow> turn option" where
  "lookup_turn turnId s =
     (if pending_is turnId (pendingTurn s) then pendingTurn s
      else find_turn turnId (turns s))"

text \<open>\<open>err.message || 'Failed to get response'\<close>\<close>

definition error_text :: "jsstring \<Rightarrow> jsstring" where
  "error_text msg = (if msg \<noteq> [] then msg else js ''Failed to get response'')"

text \<open>The conversation id of a response replaces the active one when it is new.\<close>

definition adopt_conversationId ::
  "jsstring option \<Rightarrow> jsstring option \<Rightarrow> app_state \<Rightarrow> app_state" where
  "adopt_conversationId newConversationId closureConversationId s =
     (if truthy newConversationId \<and> newConversationId \<noteq> closureConversationId
      then s\<lparr> conversationId := newConversationId \<rparr> else s)"

subsection \<open>handleSubmit\<close>

text \<open>
  The part of handleSubmit that runs before the first \<open>await\<close>. \<open>turnId\<close> is the
  identifier the handler draws from the clock and the random generator.
\<close>

definition handleSubmit :: "jsstring \<Rightarrow> app_state \<Rightarrow> app_state" where
  "handleSubmit turnId s =
     (if trim (prompt s) = [] then s
      else if \<not> enhancerEnabled s then
        s\<lparr> loading := False, error := None,
           turns := turns s @ [newTurn_direct turnId s],
           prompt := [],
           requests := requests s @ [Interact (prompt s) False None (conversationId s)] \<rparr>
      else
        s\<lparr> loading := False, error := None,
           pendingTurn := Some (newTurn_enhanced turnId s),
           modalTurnId := Some turnId,
           draftRewrite := [],
           requests :=
             requests s @ [Interact (prompt s) True (Some (mode s)) (conversationId s)] \<rparr>)"

text \<open>
  The continuations after the \<open>await\<close>. \<open>closureConversationId\<close> is the value of
  \<open>conversationId\<close> that the handler closed over when it was called.
\<close>

definition handleSubmit_direct_ok ::
  "jsstring \<Rightarrow> jsstring option \<Rightarrow> interact_response \<Rightarrow> app_state \<Rightarrow> app_state" where
  "handleSubmit_direct_ok turnId closureConversationId d s =
     (adopt_conversationId (r_conversationId d) closureConversationId s)
       \<lparr> turns := update_turn turnId (direct_answered_patch d) (turns s) \<rparr>"

definition handleSubmit_direct_err :: "jsstring \<Rightarrow> jsstring \<Rightarrow> app_state \<Rightarrow> app_state" where
  "handleSubmit_direct_err turnId msg s =
     s\<lparr> error := Some (error_text msg),
        turns := update_turn turnId (answer_failed_patch msg) (turns s) \<rparr>"

definition handleSubmit_enhanced_ok ::
  "jsstring option \<Rightarrow> interact_response \<Rightarrow> app_state \<Rightarrow> app_state" where
  "handleSubmit_enhanced_ok closureConversationId d s =
     (adopt_conversationId (r_conversationId d) closureConversationId s)
       \<lparr> pendingTurn := map_option (classified_patch d) (pendingTurn s),
         draftRewrite :=
           (if truthy (r_rewritten_prompt d) then str_of (r_rewritten_prompt d)
            else draftRewrite s) \<rparr>"

definition handleSubmit_enhanced_err :: "jsstring \<Rightarrow> app_state \<Rightarrow> app_state" where
  "handleSubmit_enhanced_err msg s =
     s\<lparr> error := Some (error_text msg),
        pendingTurn := map_option (classify_failed_patch msg) (pendingTurn s) \<rparr>"

subsection \<open>choosePromptVersion\<close>

text \<open>
  \<open>isEdited = turn.rewritten_prompt && currentDraftValue !== turn.rewritten_prompt
  && currentDraftValue !== ''\<close>, where \<open>currentDraftValue\<close> is the trimmed draft.
\<close>

definition isEdited :: "turn \<Rightarrow> jsstring \<Rightarrow> bool" where
  "isEdited t currentDraftValue =
     (truthy (rewritten_prompt t) \<and> Some currentDraftValue \<noteq> rewritten_prompt t
      \<and> currentDraftValue \<noteq> [])"

definition actualVersion :: "variant \<Rightarrow> bool \<Rightarrow> variant" where
  "actualVersion version edited =
     (if version = V_rewritten \<or> version = V_edited then
        (if version = V_edited \<or> (version = V_rewritten \<and> edited)
         then (if edited then V_edited else V_rewritten)
         else V_rewritten)
      else version)"

definition finalEditedPrompt :: "variant \<Rightarrow> bool \<Rightarrow> jsstring \<Rightarrow> jsstring option" where
  "finalEditedPrompt actual edited currentDraftValue =
     (if actual = V_edited \<or> edited then Some currentDraftValue else None)"

definition promptForAnswer :: "variant \<Rightarrow> jsstring option \<Rightarrow> turn \<Rightarrow> jsstring" where
  "promptForAnswer actual finalEdited t =
     (if actual = V_edited \<and> truthy finalEdited then str_of finalEdited
      else if actual = V_rewritten \<and> truthy (rewritten_prompt t)
        then str_of (rewritten_prompt t)
      else originalPrompt t)"

definition answer_body :: "jsstring \<Rightarrow> variant \<Rightarrow> turn \<Rightarrow> answer_request" where
  "answer_body thePrompt actual t =
     \<lparr> a_prompt = thePrompt, a_mode = turn_mode t, a_intent = intent t, a_topic = topic t,
       a_interaction_id = interaction_id t, a_conversationId = turn_conversationId t,
       a_chosen_version = actual, a_original_prompt = originalPrompt t,
       a_rewritten_prompt = rewritten_prompt t \<rparr>"

text \<open>The part of choosePromptVersion that runs before the \<open>await\<close>.\<close>

definition choosePromptVersion :: "jsstring \<Rightarrow> variant \<Rightarrow> app_state \<Rightarrow> app_state" where
  "choosePromptVersion turnId version s =
     (let currentDraftValue = trim (draftRewrite s);
          s1 = s\<lparr> modalTurnId := None, draftRewrite := [], prompt := [] \<rparr>
      in case lookup_turn turnId s of
           None \<Rightarrow> s1
         | Some t \<Rightarrow>
             (let edited = isEdited t currentDraftValue;
                  actual = actualVersion version edited;
                  finalEdited = finalEditedPrompt actual edited currentDraftValue;
                  thePrompt = promptForAnswer actual finalEdited t;
                  s2 = (if pending_is turnId (pendingTurn s)
                        then s1\<lparr> turns := turns s @ [chosen_patch actual finalEdited t],
                                 pendingTurn := None \<rparr>
                        else s1\<lparr> turns :=
                                   update_turn turnId (chosen_patch actual finalEdited)
                                     (turns s) \<rparr>)
              in s2\<lparr> requests := requests s @ [Answer (answer_body thePrompt actual t)] \<rparr>))"

text \<open>The continuations: the answer arrived, or the call failed.\<close>

definition choosePromptVersion_ok ::
  "jsstring \<Rightarrow> jsstring option \<Rightarrow> app_state \<Rightarrow> app_state" where
  "choosePromptVersion_ok turnId answer s =
     s\<lparr> turns := update_turn turnId (answered_patch answer) (turns s) \<rparr>"

definition choosePromptVersion_err :: "jsstring \<Rightarrow> jsstring \<Rightarrow> app_state \<Rightarrow> app_state" where
  "choosePromptVersion_err turnId msg s =
     s\<lparr> turns := update_turn turnId (answer_failed_patch msg) (turns s) \<rparr>"

subsection \<open>handleRegenerate\<close>

definition handleRegenerate :: "jsstring \<Rightarrow> app_state \<Rightarrow> app_state" where
  "handleRegenerate turnId s =
     (case lookup_turn turnId s of
        None \<Rightarrow> s
      | Some t \<Rightarrow>
          (if \<not> truthy (turn_mode t) then s
           else s\<lparr> regenerating := True,
                   requests := requests s @
                     [Interact (originalPrompt t) True (turn_mode t) (turn_conversationId t)] \<rparr>))"

text \<open>
  The continuation; \<open>closurePendingTurn\<close> is the \<open>pendingTurn\<close> the handler closed over
  when it was called.
\<close>

definition handleRegenerate_ok ::
  "jsstring \<Rightarrow> turn option \<Rightarrow> interact_response \<Rightarrow> app_state \<Rightarrow> app_state" where
  "handleRegenerate_ok turnId closurePendingTurn d s =
     (if pending_is turnId closurePendingTurn
      then s\<lparr> pendingTurn := map_option (regenerated_patch_pending d) (pendingTurn s) \<rparr>
      else s\<lparr> turns := update_turn turnId (regenerated_patch_listed d) (turns s) \<rparr>)
       \<lparr> draftRewrite := str_of (or_null (r_rewritten_prompt d)), regenerating := False \<rparr>"

definition handleRegenerate_err :: "app_state \<Rightarrow> app_state" where
  "handleRegenerate_err s = s\<lparr> regenerating := False \<rparr>"

subsection \<open>The modal\<close>





section \<open>Conversation Store and Persistence Adapter\<close>

text \<open>
  The filter of the save effect and of the loader:
  \<open>turn.final_answer !== '__LOADING__' && turn.intent !== 'loading'\<close>.
\<close>

definition is_complete :: "turn \<Rightarrow> bool" where
  "is_complete t =
     (final_answer t \<noteq> Some (js ''__LOADING__'') \<and> intent t \<noteq> Some (js ''loading''))"

text \<open>
  The title of a conversation: the first complete turn's prompt, cut after 50 code
  units.
\<close>

definition title_of :: "turn \<Rightarrow> jsstring" where
  "title_of first =
     (let firstPrompt =
            (if originalPrompt first \<noteq> [] then originalPrompt first
             else js ''New Conversation'')
      in if length firstPrompt > 50 then take 50 firstPrompt @ js ''...'' else firstPrompt)"

text \<open>
  The effect that saves the current conversation's turns whenever \<open>turns\<close> or
  \<open>conversationId\<close> change; \<open>now\<close> is \<open>Date.now()\<close>.
\<close>

definition effect_save_turns :: "int \<Rightarrow> app_state \<Rightarrow> app_state" where
  "effect_save_turns now s =
     (case conversationId s of
        None \<Rightarrow> s
      | Some cid \<Rightarrow>
          (if cid = [] then s
           else (case filter is_complete (turns s) of
                   [] \<Rightarrow> s
                 | first # rest \<Rightarrow>
                     s\<lparr> conversations :=
                          obj_set cid
                            \<lparr> conv_turns = first # rest, title = title_of first,
                              updatedAt = now \<rparr>
                            (conversations s) \<rparr>)))"

text \<open>The effects that write the two \<open>localStorage\<close> entries.\<close>

definition effect_save_conversations :: "app_state \<Rightarrow> app_state" where
  "effect_save_conversations s =
     s\<lparr> localStorage_conversations :=
          (if conversations s \<noteq> [] then Some (conversations s) else None) \<rparr>"

definition effect_save_active :: "app_state \<Rightarrow> app_state" where
  "effect_save_active s =
     s\<lparr> localStorage_active :=
          (if truthy (conversationId s) then conversationId s else None) \<rparr>"

text \<open>The three effects, in the order of a render in which everything changed.\<close>

definition run_effects :: "int \<Rightarrow> app_state \<Rightarrow> app_state" where
  "run_effects now s = effect_save_active (effect_save_conversations (effect_save_turns now s))"

text \<open>
  The defaults both loaders give a persisted turn. A missing \<open>showReasoning\<close> is
  inferred from \<open>rewrite_strategy\<close> and \<open>intent\<close>.
\<close>

definition rehydrate :: "turn \<Rightarrow> turn" where
  "rehydrate t =
     t\<lparr> reasoningStage := Some (case reasoningStage t of None \<Rightarrow> Done | Some st \<Rightarrow> st),
        chosenPromptVersion := chosenPromptVersion t,
        edited_prompt := or_null (edited_prompt t),
        rewrite_strategy := or_null (rewrite_strategy t),
        decisionRationale := or_null (decisionRationale t),
        promptFeedback := fb_or_null (promptFeedback t),
        interaction_id := or_null (interaction_id t),
        showReasoning :=
          Some (case showReasoning t of
                  Some b \<Rightarrow> b
                | None \<Rightarrow> rewrite_strategy t \<noteq> None \<or> intent t \<noteq> None) \<rparr>"

text \<open>The effect that runs once on mount and reads \<open>localStorage\<close>.\<close>

definition load_on_mount :: "app_state \<Rightarrow> app_state" where
  "load_on_mount s =
     (let s1 = (case localStorage_conversations s of
                  None \<Rightarrow> s
                | Some parsed \<Rightarrow> s\<lparr> conversations := parsed \<rparr>)
      in case localStorage_active s of
           None \<Rightarrow> s1
         | Some activeId \<Rightarrow>
             (if activeId = [] then s1
              else (case localStorage_conversations s of
                      None \<Rightarrow> s1
                    | Some parsed \<Rightarrow>
                        (case obj_get activeId parsed of
                           None \<Rightarrow> s1
                         | Some conv \<Rightarrow>
                             s1\<lparr> conversationId := Some activeId,
                                 turns := map rehydrate
                                            (filter is_complete (conv_turns conv)) \<rparr>))))"

text \<open>Reloading the page: a fresh component over the same \<open>localStorage\<close>.\<close>

definition reload :: "app_state \<Rightarrow> app_state" where
  "reload s =
     load_on_mount
       (initial_state\<lparr> localStorage_conversations := localStorage_conversations s,
                       localStorage_active := localStorage_active s \<rparr>)"

definition startNewConversation :: "app_state \<Rightarrow> app_state" where
  "startNewConversation s = s\<lparr> conversationId := None, turns := [], error := None \<rparr>"

text \<open>
  switchConversation reads \<open>conversations\<close> and \<open>conversationId\<close> from the render it
  was created in; they are explicit here because handleConfirmDelete calls it after
  having scheduled the deletion.
\<close>

definition switchConversation_from ::
  "(jsstring \<times> conversation) list \<Rightarrow> jsstring option \<Rightarrow> jsstring \<Rightarrow> app_state \<Rightarrow> app_state"
  where
  "switchConversation_from closureConversations closureConversationId target s =
     (if Some target = closureConversationId then s
      else (case obj_get target closureConversations of
              None \<Rightarrow> s
            | Some conv \<Rightarrow>
                s\<lparr> conversationId := Some target,
                   turns := map rehydrate (conv_turns conv),
                   error := None \<rparr>))"

definition switchConversation :: "jsstring \<Rightarrow> app_state \<Rightarrow> app_state" where
  "switchConversation target s =
     switchConversation_from (conversations s) (conversationId s) target s"

definition deleteConversation :: "jsstring \<Rightarrow> app_state \<Rightarrow> app_state" where
  "deleteConversation target s =
     s\<lparr> deleteConfirmDialog := \<lparr> isOpen = True, dialog_conversationId = Some target \<rparr> \<rparr>"

definition handleCancelDelete :: "app_state \<Rightarrow> app_state" where
  "handleCancelDelete s =
     s\<lparr> deleteConfirmDialog := \<lparr> isOpen = False, dialog_conversationId = None \<rparr> \<rparr>"

definition handleConfirmDelete :: "app_state \<Rightarrow> app_state" where
  "handleConfirmDelete s =
     (case dialog_conversationId (deleteConfirmDialog s) of
        None \<Rightarrow> s
      | Some target \<Rightarrow>
          (if target = [] then s
           else
             (let s1 = s\<lparr> conversations := obj_delete target (conversations s) \<rparr>;
                  s2 = (if Some target = conversationId s then
                          (let remainingIds =
                                 filter (\<lambda>k. k \<noteq> target) (obj_keys (conversations s))
                           in if remainingIds \<noteq> []
                              then switchConversation_from (conversations s) (conversationId s)
                                     (last remainingIds) s1
                              else startNewConversation s1)
                        else s1)
              in s2\<lparr> deleteConfirmDialog :=
                       \<lparr> isOpen = False, dialog_conversationId = None \<rparr> \<rparr>)))"

text \<open>
  getConversationList: the sidebar's order, most recently updated first
  (\<open>Array.prototype.sort\<close> is stable).
\<close>

definition getConversationList ::
  "app_state \<Rightarrow> (jsstring \<times> conversation) list" where
  "getConversationList s = sort_key (\<lambda>(k, c). - updatedAt c) (conversations s)"

section \<open>Reasoning Transform\<close>

text \<open>The bullet markers of \<open>/^[-\<bullet>*]\s*/\<close>: hyphen, U+2022 and asterisk.\<close>

definition is_marker :: "nat \<Rightarrow> bool" where
  "is_marker c = (c = 45 \<or> c = 8226 \<or> c = 42)"

text \<open>\<open>line.replace(/^[-\<bullet>*]\s*/, '')\<close>\<close>

definition strip_marker :: "jsstring \<Rightarrow> jsstring" where
  "strip_marker l =
     (case l of
        [] \<Rightarrow> []
      | c # r \<Rightarrow> if is_marker c then dropWhile is_ws r else l)"

definition feedback_bullets :: "jsstring \<Rightarrow> jsstring list" where
  "feedback_bullets fb =
     (let lines = filter (\<lambda>l. trim l \<noteq> []) (split_on 10 fb);
          bullets = filter (\<lambda>b. b \<noteq> []) (map (\<lambda>l. trim (strip_marker l)) lines)
      in if bullets = [] \<and> trim fb \<noteq> [] then [trim fb] else bullets)"

definition reasoning_bullets :: "feedback option \<Rightarrow> jsstring list" where
  "reasoning_bullets v =
     (case v of
        None \<Rightarrow> []
      | Some (FeedbackList bs) \<Rightarrow> bs
      | Some (FeedbackText fb) \<Rightarrow> if fb = [] then [] else feedback_bullets fb)"

text \<open>\<open>s.split(sep)[0]\<close>\<close>

definition first_part :: "nat \<Rightarrow> jsstring \<Rightarrow> jsstring" where
  "first_part sep s = (case split_on sep s of [] \<Rightarrow> [] | w # ws \<Rightarrow> w)"

text \<open>
  \<open>w.charAt(0).toUpperCase() + w.slice(1)\<close>. The Unicode upper-casing of a single code
  unit is a parameter, \<open>upper\<close>.
\<close>

definition capitalize :: "(nat \<Rightarrow> jsstring) \<Rightarrow> jsstring \<Rightarrow> jsstring" where
  "capitalize upper w = (case w of [] \<Rightarrow> [] | c # cs \<Rightarrow> upper c @ cs)"

definition format_words :: "(nat \<Rightarrow> jsstring) \<Rightarrow> jsstring \<Rightarrow> jsstring" where
  "format_words upper i = join_with [32] (map (capitalize upper) (split_on 95 i))"

definition summary_of :: "(nat \<Rightarrow> jsstring) \<Rightarrow> turn \<Rightarrow> jsstring" where
  "summary_of upper t =
     (if truthy (decisionRationale t) then
        (let r = str_of (decisionRationale t)
         in first_part 46 r @ (if 46 \<in> set r then [46] else []))
      else
        js ''The agent interpreted your prompt as seeking ''
        @ (if truthy (intent t) then format_words upper (str_of (intent t))
           else js ''understanding'')
        @ js ''.'')"

record reasoning_data =
  rd_intent :: jsstring
  rd_topic :: jsstring
  rd_summary :: jsstring
  rd_reasoningBullets :: "jsstring list"
  rd_originalPrompt :: jsstring
  rd_rewrittenPrompt :: jsstring

definition transformTurnToReasoningData ::
  "(nat \<Rightarrow> jsstring) \<Rightarrow> turn option \<Rightarrow> reasoning_data option" where
  "transformTurnToReasoningData upper v =
     (case v of
        None \<Rightarrow> None
      | Some t \<Rightarrow>
          Some \<lparr> rd_intent = str_of (intent t),
                 rd_topic = str_of (topic t),
                 rd_summary = summary_of upper t,
                 rd_reasoningBullets = reasoning_bullets (promptFeedback t),
                 rd_originalPrompt = originalPrompt t,
                 rd_rewrittenPrompt = str_of (rewritten_prompt t) \<rparr>)"

section \<open>The life of one turn\<close>

text \<open>
  The updates of the orchestrator, seen from a single turn. No handler tests the stage
  of the turn it updates, and neither does \<open>apply_event\<close>: an update may meet a turn in
  any stage.
\<close>

datatype event =
  EvClassified interact_response
| EvClassifyFailed jsstring
| EvChoose variant jsstring
| EvAnswered "jsstring option"
| EvDirectAnswered interact_response
| EvAnswerFailed jsstring
| EvRegeneratedPending interact_response
| EvRegeneratedListed interact_response
| EvReloaded

text \<open>choosePromptVersion on one turn; \<open>draft\<close> is the draft as typed, before trimming.\<close>

definition resolve_turn :: "variant \<Rightarrow> jsstring \<Rightarrow> turn \<Rightarrow> turn" where
  "resolve_turn version draft t =
     (let currentDraftValue = trim draft;
          edited = isEdited t currentDraftValue;
          actual = actualVersion version edited
      in chosen_patch actual (finalEditedPrompt actual edited currentDraftValue) t)"

fun apply_event :: "event \<Rightarrow> turn \<Rightarrow> turn" where
  "apply_event (EvClassified d) t = classified_patch d t"
| "apply_event (EvClassifyFailed msg) t = classify_failed_patch msg t"
| "apply_event (EvChoose version draft) t = resolve_turn version draft t"
| "apply_event (EvAnswered answer) t = answered_patch answer t"
| "apply_event (EvDirectAnswered d) t = direct_answered_patch d t"
| "apply_event (EvAnswerFailed msg) t = answer_failed_patch msg t"
| "apply_event (EvRegeneratedPending d) t = regenerated_patch_pending d t"
| "apply_event (EvRegeneratedListed d) t = regenerated_patch_listed d t"
| "apply_event EvReloaded t = rehydrate t"

text \<open>A sequence of updates, the first of the list first.\<close>

definition apply_events :: "event list \<Rightarrow> turn \<Rightarrow> turn" where
  "apply_events es t = foldl (\<lambda>u e. apply_event e u) t es"

fun is_choose :: "event \<Rightarrow> bool" where
  "is_choose (EvChoose version draft) = True"
| "is_choose e = False"

fun is_regenerate :: "event \<Rightarrow> bool" where
  "is_regenerate (EvRegeneratedPending d) = True"
| "is_regenerate (EvRegeneratedListed d) = True"
| "is_regenerate e = False"

text \<open>A regenerate has been applied after the last choice of the sequence.\<close>

definition regenerated_after_choice :: "event list \<Rightarrow> bool" where
  "regenerated_after_choice es =
     list_ex is_regenerate (takeWhile (\<lambda>e. \<not> is_choose e) (rev es))"

section \<open>The component as a whole\<close>



text \<open>All the turns of the stored conversations, and all the turns outside the modal.\<close>

definition stored_turns :: "(jsstring \<times> conversation) list \<Rightarrow> turn list" where
  "stored_turns cs = concat (map (\<lambda>entry. conv_turns (snd entry)) cs)"






section \<open>Notions used to state the properties\<close>

text \<open>
  The transition graph in the words of the specification:
  classifying, rewritten, answering, done, each to the next.
\<close>

definition spec_edge :: "stage \<Rightarrow> stage \<Rightarrow> bool" where
  "spec_edge a b =
     ((a = Classifying \<and> b = Rewritten) \<or> (a = Rewritten \<and> b = Answering)
      \<or> (a = Answering \<and> b = Done))"


text \<open>
  The bullets in the words of the specification: a bullet carries no bullet marker at
  its front any more.
\<close>

definition spec_marker_stripped :: "jsstring \<Rightarrow> bool" where
  "spec_marker_stripped b = (case b of [] \<Rightarrow> True | c # r \<Rightarrow> \<not> is_marker c)"

text \<open>
  What the two steps of the transform on a line, the replacement and the trim, amount
  to: one marker is dropped when it is the very first character, and the rest is
  trimmed (\<open>trim_strip_marker\<close> below).
\<close>

definition clean_line :: "jsstring \<Rightarrow> jsstring" where
  "clean_line l = (case l of [] \<Rightarrow> [] | c # r \<Rightarrow> if is_marker c then trim r else trim l)"

text \<open>
  The moves of the stage that the code makes: the edges of the specification, from
  classifying straight to done, from done to answering, and between rewritten and done.
\<close>

definition code_edge :: "stage \<Rightarrow> stage \<Rightarrow> bool" where
  "code_edge a b =
     (spec_edge a b \<or> (a = Classifying \<and> b = Done) \<or> (a = Done \<and> b = Answering)
      \<or> (a = Rewritten \<and> b = Done) \<or> (a = Done \<and> b = Rewritten))"

text \<open>
  The invariant that carries the relation between \<open>chosenPromptVersion\<close> and
  \<open>edited_prompt\<close> through a sequence of updates.
\<close>

definition variant_inv :: "event list \<Rightarrow> turn \<Rightarrow> bool" where
  "variant_inv es t =
     ((edited_prompt t \<noteq> None \<longrightarrow>
         chosenPromptVersion t = Some V_edited \<or> chosenPromptVersion t = Some V_original)
      \<and> (chosenPromptVersion t = Some V_edited \<and> \<not> regenerated_after_choice es \<longrightarrow>
           truthy (edited_prompt t)))"

text \<open>
  The invariant of the reachable states: a turn outside the modal is answering or done
  and has a chosen version; the pending turn is classifying, rewritten or done, and its
  identifier is that of no other turn.
\<close>

definition listed_ok :: "turn \<Rightarrow> bool" where
  "listed_ok t =
     ((reasoningStage t = Some Answering \<or> reasoningStage t = Some Done)
      \<and> chosenPromptVersion t \<noteq> None)"



text \<open>One step of the stage of a turn: it stays where it is, or moves along an edge.\<close>

definition stage_step :: "turn \<Rightarrow> turn \<Rightarrow> bool" where
  "stage_step t t' =
     (case (reasoningStage t, reasoningStage t') of
        (Some x, Some y) \<Rightarrow> x = y \<or> code_edge x y
      | _ \<Rightarrow> False)"


section \<open>Worked sessions\<close>

text \<open>Upper-casing restricted to the ASCII letters, for the examples.\<close>

definition ascii_upper :: "nat \<Rightarrow> jsstring" where
  "ascii_upper c = (if 97 \<le> c \<and> c \<le> 122 then [c - 32] else [c])"

subsection \<open>Enhancer on\<close>

text \<open>
  The scenario of the specification: the user submits a question with the enhancer on,
  and the classification and rewrite arrive.
\<close>

definition demo_response :: interact_response where
  "demo_response =
     \<lparr> r_interaction_id = Some (js ''i-1''), r_conversationId = Some (js ''c-1''),
       r_intent = Some (js ''conceptual''), r_topic = Some (js ''reinforcement learning''),
       r_rewritten_prompt = Some (js ''Explain reinforcement learning step by step.''),
       r_rewrite_strategy = Some (js ''learning_explanation''),
       r_decisionRationale = Some (js ''Conceptual question. Expanded for depth.''),
       r_promptFeedback = Some (FeedbackText (js ''- Added steps'')),
       r_final_answer = None, r_showReasoning = Some True \<rparr>"

definition demo_submitted :: app_state where
  "demo_submitted =
     handleSubmit (js ''turn-1'')
       (initial_state\<lparr> prompt := js ''What is reinforcement learning?'' \<rparr>)"

definition demo_rewritten :: app_state where
  "demo_rewritten = handleSubmit_enhanced_ok None demo_response demo_submitted"

text \<open>The pending turn of that session, when it is created and once it is classified.\<close>

definition demo_new_turn :: turn where
  "demo_new_turn =
     newTurn_enhanced (js ''turn-1'')
       (initial_state\<lparr> prompt := js ''What is reinforcement learning?'' \<rparr>)"

definition demo_turn :: turn where
  "demo_turn =
     classified_patch demo_response
       (newTurn_enhanced (js ''turn-1'')
          (initial_state\<lparr> prompt := js ''What is reinforcement learning?'' \<rparr>))"

text \<open>
  The user types in the modal's text area: a prompt of their own, or only a space after
  the rewritten prompt.
\<close>

definition demo_edited_draft :: app_state where
  "demo_edited_draft = demo_rewritten\<lparr> draftRewrite := js ''Teach me reinforcement learning. '' \<rparr>"

definition demo_trailing_space :: app_state where
  "demo_trailing_space =
     demo_rewritten\<lparr> draftRewrite := js ''Explain reinforcement learning step by step. '' \<rparr>"

text \<open>The user has chosen the edited draft, and the answer is awaited.\<close>

definition demo_answering :: app_state where
  "demo_answering = choosePromptVersion (js ''turn-1'') V_rewritten demo_edited_draft"

text \<open>The same session when the backend returns no rewritten prompt.\<close>

definition demo_no_rewrite_turn :: turn where
  "demo_no_rewrite_turn =
     classified_patch (demo_response\<lparr> r_rewritten_prompt := None \<rparr>)
       (newTurn_enhanced (js ''turn-1'')
          (initial_state\<lparr> prompt := js ''What is reinforcement learning?'' \<rparr>))"

definition demo_no_rewrite :: app_state where
  "demo_no_rewrite =
     (handleSubmit_enhanced_ok None (demo_response\<lparr> r_rewritten_prompt := None \<rparr>)
        demo_submitted)\<lparr> draftRewrite := js ''Teach me'' \<rparr>"

text \<open>A second classification of the same prompt, with another intent and topic.\<close>

definition demo_second_response :: interact_response where
  "demo_second_response =
     demo_response\<lparr> r_interaction_id := Some (js ''i-2''),
                    r_intent := Some (js ''debugging''), r_topic := Some (js ''agents''),
                    r_rewritten_prompt := Some (js ''Walk me through reinforcement learning.'') \<rparr>"

text \<open>
  The answer arrives; then the turn is regenerated, the one operation that resets the
  edited prompt.
\<close>

definition demo_edited_done :: app_state where
  "demo_edited_done =
     choosePromptVersion_ok (js ''turn-1'') (Some (js ''An agent learns from reward.''))
       demo_answering"

definition demo_regenerated_done :: app_state where
  "demo_regenerated_done =
     handleRegenerate_ok (js ''turn-1'') (pendingTurn demo_edited_done) demo_second_response
       (handleRegenerate (js ''turn-1'') demo_edited_done)"

text \<open>
  While the answer is awaited the user starts a new conversation; then the answer call
  fails. The effects run after every step.
\<close>

definition demo_navigated_away :: app_state where
  "demo_navigated_away = run_effects 2 (startNewConversation (run_effects 1 demo_answering))"

definition demo_failed_away :: app_state where
  "demo_failed_away =
     choosePromptVersion_err (js ''turn-1'') (js ''Failed to fetch'') demo_navigated_away"






text \<open>
  A whole life: classified, regenerated, resolved with an edited draft, the answer call
  fails, and the page is reloaded.
\<close>

definition demo_events :: "event list" where
  "demo_events =
     [EvClassified demo_response, EvRegeneratedPending demo_second_response,
      EvChoose V_rewritten (js ''Teach me reinforcement learning. ''),
      EvAnswerFailed (js ''Failed to fetch''), EvReloaded]"

definition demo_final_turn :: turn where
  "demo_final_turn =
     rehydrate
       (answer_failed_patch (js ''Failed to fetch'')
          (resolve_turn V_rewritten (js ''Teach me reinforcement learning. '')
             (regenerated_patch_pending demo_second_response
                (classified_patch demo_response demo_new_turn))))"

text \<open>Feedback texts: two bullets with a blank line between, an indented bullet, bold text.\<close>

definition demo_feedback_turn :: turn where
  "demo_feedback_turn =
     demo_turn\<lparr> promptFeedback :=
       Some (FeedbackText (js ''- Added steps'' @ [10, 10] @ js ''* Asked for examples '')) \<rparr>"

definition demo_indented_turn :: turn where
  "demo_indented_turn =
     demo_turn\<lparr> promptFeedback := Some (FeedbackText (js ''  - Added steps'')) \<rparr>"

definition demo_bold_turn :: turn where
  "demo_bold_turn =
     demo_turn\<lparr> promptFeedback := Some (FeedbackText (js ''** Added steps'')) \<rparr>"

subsection \<open>Enhancer off\<close>

definition demo_direct_response :: interact_response where
  "demo_direct_response =
     \<lparr> r_interaction_id = Some (js ''i-1''), r_conversationId = Some (js ''c-1''),
       r_intent = None, r_topic = None, r_rewritten_prompt = None,
       r_rewrite_strategy = None, r_decisionRationale = Some (js ''Enhancer off''),
       r_promptFeedback = None, r_final_answer = Some (js ''Hello!''),
       r_showReasoning = Some False \<rparr>"

text \<open>
  A first question is answered, which creates the conversation, and a second question
  is submitted; the effects run after every step.
\<close>

definition demo_first_answered :: app_state where
  "demo_first_answered =
     run_effects 2
       (handleSubmit_direct_ok (js ''turn-1'') None demo_direct_response
          (run_effects 1
             (handleSubmit (js ''turn-1'')
                (initial_state\<lparr> enhancerEnabled := False, prompt := js ''hi'' \<rparr>))))"

definition demo_second_submitted :: app_state where
  "demo_second_submitted =
     run_effects 3 (handleSubmit (js ''turn-2'') (demo_first_answered\<lparr> prompt := js ''more'' \<rparr>))"

text \<open>The second answer is, word for word, the text \<open>__LOADING__\<close>.\<close>

definition demo_loading_answered :: app_state where
  "demo_loading_answered =
     run_effects 4
       (handleSubmit_direct_ok (js ''turn-2'') (Some (js ''c-1''))
          (demo_direct_response\<lparr> r_final_answer := Some (js ''__LOADING__'') \<rparr>)
          demo_second_submitted)"

text \<open>The first answer comes with an empty rationale.\<close>

definition demo_blank_rationale :: app_state where
  "demo_blank_rationale =
     run_effects 2
       (handleSubmit_direct_ok (js ''turn-1'') None
          (demo_direct_response\<lparr> r_decisionRationale := Some [] \<rparr>)
          (run_effects 1
             (handleSubmit (js ''turn-1'')
                (initial_state\<lparr> enhancerEnabled := False, prompt := js ''hi'' \<rparr>))))"

subsection \<open>Stored conversations\<close>

definition demo_done_turn :: "jsstring \<Rightarrow> jsstring \<Rightarrow> jsstring \<Rightarrow> jsstring \<Rightarrow> turn" where
  "demo_done_turn tid cid question answer =
     \<lparr> turn_id = tid, turn_conversationId = Some cid, originalPrompt = question,
       turn_mode = None, intent = None, topic = None, rewritten_prompt = None,
       rewrite_strategy = None, edited_prompt = None, final_answer = Some answer,
       decisionRationale = None, promptFeedback = None, reasoningStage = Some Done,
       chosenPromptVersion = Some V_original, interaction_id = Some (js ''i-0''),
       showReasoning = Some False \<rparr>"

definition demo_conversation :: "jsstring \<Rightarrow> int \<Rightarrow> conversation" where
  "demo_conversation cid stamp =
     \<lparr> conv_turns = [demo_done_turn (js ''turn-0'') cid (js ''hello'') (js ''hi'')],
       title = js ''hello'', updatedAt = stamp \<rparr>"

text \<open>
  Three conversations, created in the order a, b, c; a was visited again last. The
  user asks to delete the active one, c.
\<close>

definition demo_store :: app_state where
  "demo_store =
     deleteConversation (js ''c'')
       (initial_state
          \<lparr> conversations := [(js ''a'', demo_conversation (js ''a'') 300),
                              (js ''b'', demo_conversation (js ''b'') 100),
                              (js ''c'', demo_conversation (js ''c'') 200)],
            conversationId := Some (js ''c''),
            turns := conv_turns (demo_conversation (js ''c'') 200) \<rparr>)"

text \<open>The same request when c is the only conversation.\<close>

definition demo_single_store :: app_state where
  "demo_single_store =
     deleteConversation (js ''c'')
       (initial_state
          \<lparr> conversations := [(js ''c'', demo_conversation (js ''c'') 200)],
            conversationId := Some (js ''c''),
            turns := conv_turns (demo_conversation (js ''c'') 200) \<rparr>)"

section \<open>Verification\<close>

subsection \<open>Unfolding the model\<close>

lemmas value_defs = js_def truthy_def or_null_def str_of_def is_ws_def trim_def
  fb_truthy_def fb_or_null_def

lemmas patch_defs = newTurn_direct_def newTurn_enhanced_def direct_answered_patch_def
  answer_failed_patch_def classified_patch_def classify_failed_patch_def chosen_patch_def
  answered_patch_def regenerated_patch_pending_def regenerated_patch_listed_def
  rehydrate_def resolve_turn_def

lemmas choose_defs = isEdited_def actualVersion_def finalEditedPrompt_def
  promptForAnswer_def answer_body_def

lemmas handler_defs = handleSubmit_def handleSubmit_direct_ok_def handleSubmit_direct_err_def
  handleSubmit_enhanced_ok_def handleSubmit_enhanced_err_def choosePromptVersion_def
  choosePromptVersion_ok_def choosePromptVersion_err_def handleRegenerate_def
  handleRegenerate_ok_def handleRegenerate_err_def adopt_conversationId_def
  lookup_turn_def find_turn_def pending_is_def update_turn_def error_text_def

lemmas store_defs = is_complete_def title_of_def effect_save_turns_def
  effect_save_conversations_def effect_save_active_def run_effects_def load_on_mount_def
  reload_def startNewConversation_def switchConversation_from_def switchConversation_def
  deleteConversation_def handleCancelDelete_def handleConfirmDelete_def
  getConversationList_def obj_keys_def obj_get_def obj_set_def obj_delete_def
  is_array_index_def is_digit_def index_value_def

lemmas transform_defs = transformTurnToReasoningData_def reasoning_bullets_def
  feedback_bullets_def strip_marker_def is_marker_def first_part_def summary_of_def
  format_words_def capitalize_def clean_line_def ascii_upper_def spec_marker_stripped_def

lemmas demo_defs = initial_state_def demo_response_def demo_submitted_def demo_rewritten_def

lemmas demo_store_defs = demo_done_turn_def demo_conversation_def demo_store_def

lemmas demo_direct_defs = demo_direct_response_def demo_first_answered_def
  demo_second_submitted_def

lemmas all_demo_defs = demo_defs demo_second_response_def demo_store_defs demo_direct_defs
  demo_loading_answered_def demo_events_def

lemmas more_demo_defs = all_demo_defs demo_turn_def demo_edited_draft_def
  demo_trailing_space_def demo_no_rewrite_turn_def demo_no_rewrite_def

lemmas feedback_demo_defs = demo_feedback_turn_def demo_indented_turn_def demo_bold_turn_def

lemmas last_demo_defs = more_demo_defs demo_new_turn_def demo_final_turn_def
  demo_answering_def demo_single_store_def demo_blank_rationale_def

lemmas regenerated_demo_defs = last_demo_defs demo_edited_done_def
  demo_regenerated_done_def

lemmas away_demo_defs = last_demo_defs demo_navigated_away_def demo_failed_away_def
  stored_turns_def


subsection \<open>Looking a turn up after an update\<close>

lemma find_turn_update:
  "find_turn tid ts = Some t \<Longrightarrow> turn_id (f t) = tid \<Longrightarrow>
   find_turn tid (update_turn tid f ts) = Some (f t)"
  by (induction ts) (auto simp: update_turn_def find_turn_def)

lemma find_turn_append_new:
  "find_turn tid ts = None \<Longrightarrow> turn_id t = tid \<Longrightarrow> find_turn tid (ts @ [t]) = Some t"
  by (induction ts) (auto simp: find_turn_def split: if_splits)

lemma turn_id_chosen_patch [simp]: "turn_id (chosen_patch a e t) = turn_id t"
  by (simp add: chosen_patch_def)

lemma find_turn_id: "find_turn tid ts = Some t \<Longrightarrow> turn_id t = tid"
  by (induction ts) (auto simp: find_turn_def split: if_splits)

lemma lookup_turn_id: "lookup_turn tid s = Some t \<Longrightarrow> turn_id t = tid"
  by (auto simp: lookup_turn_def pending_is_def dest: find_turn_id split: if_splits option.splits)

lemma update_turn_length [simp]: "length (update_turn tid f ts) = length ts"
  by (simp add: update_turn_def)

lemma update_turn_nth:
  "i < length ts \<Longrightarrow>
   update_turn tid f ts ! i = (if turn_id (ts ! i) = tid then f (ts ! i) else ts ! i)"
  by (simp add: update_turn_def)

lemma turn_id_regenerated [simp]:
  "turn_id (regenerated_patch_listed d t) = turn_id t"
  "turn_id (regenerated_patch_pending d t) = turn_id t"
  by (simp_all add: regenerated_patch_listed_def regenerated_patch_pending_def)

subsection \<open>Choosing a prompt version\<close>

text \<open>
  What choosePromptVersion leaves in the chat feed and sends to the backend. The pending
  turn is not yet in the chat feed; that is the second premise.
\<close>

lemma choosePromptVersion_resolves:
  assumes look: "lookup_turn tid s = Some t"
    and fresh: "pending_is tid (pendingTurn s) \<longrightarrow> find_turn tid (turns s) = None"
  shows "find_turn tid (turns (choosePromptVersion tid v s))
           = Some (resolve_turn v (draftRewrite s) t)"
    and "requests (choosePromptVersion tid v s)
           = requests s @
             [Answer (answer_body
                (promptForAnswer
                   (actualVersion v (isEdited t (trim (draftRewrite s))))
                   (finalEditedPrompt (actualVersion v (isEdited t (trim (draftRewrite s))))
                      (isEdited t (trim (draftRewrite s))) (trim (draftRewrite s))) t)
                (actualVersion v (isEdited t (trim (draftRewrite s)))) t)]"
proof -
  have tid: "turn_id t = tid" using look by (rule lookup_turn_id)
  show "find_turn tid (turns (choosePromptVersion tid v s))
           = Some (resolve_turn v (draftRewrite s) t)"
  proof (cases "pending_is tid (pendingTurn s)")
    case True
    with fresh have none: "find_turn tid (turns s) = None" by simp
    from True look have "pendingTurn s = Some t" by (simp add: lookup_turn_def)
    with True look none tid show ?thesis
      by (simp add: choosePromptVersion_def Let_def resolve_turn_def find_turn_append_new)
  next
    case False
    with look have found: "find_turn tid (turns s) = Some t" by (simp add: lookup_turn_def)
    with False look tid show ?thesis
      by (simp add: choosePromptVersion_def Let_def resolve_turn_def find_turn_update)
  qed
  show "requests (choosePromptVersion tid v s)
           = requests s @
             [Answer (answer_body
                (promptForAnswer
                   (actualVersion v (isEdited t (trim (draftRewrite s))))
                   (finalEditedPrompt (actualVersion v (isEdited t (trim (draftRewrite s))))
                      (isEdited t (trim (draftRewrite s))) (trim (draftRewrite s))) t)
                (actualVersion v (isEdited t (trim (draftRewrite s)))) t)]"
    using look by (simp add: choosePromptVersion_def Let_def)
qed

text \<open>
  Claim C10. A turn whose rewritten prompt is null is never reclassified as edited when
  the user picks the rewritten version, whatever the draft holds: the turn enters the
  chat feed with \<open>chosenPromptVersion = 'rewritten'\<close> and \<open>edited_prompt = null\<close>, awaiting
  its answer, and the body of the \<open>/answer\<close> request has the original prompt as its
  \<open>prompt\<close>, \<open>rewritten\<close> as its \<open>chosen_version\<close>, and the turn's mode, intent, topic,
  interaction identifier, conversation identifier, original prompt and (null) rewritten
  prompt in its other fields.
\<close>

theorem choose_rewritten_without_rewrite:
  assumes "lookup_turn tid s = Some t"
    and "pending_is tid (pendingTurn s) \<longrightarrow> find_turn tid (turns s) = None"
    and "reasoningStage t = Some Rewritten"
    and "rewritten_prompt t = None"
  shows "find_turn tid (turns (choosePromptVersion tid V_rewritten s))
           = Some (t\<lparr> chosenPromptVersion := Some V_rewritten, edited_prompt := None,
                       reasoningStage := Some Answering, final_answer := None \<rparr>)
         \<and> requests (choosePromptVersion tid V_rewritten s)
           = requests s @
             [Answer \<lparr> a_prompt = originalPrompt t, a_mode = turn_mode t, a_intent = intent t,
                       a_topic = topic t, a_interaction_id = interaction_id t,
                       a_conversationId = turn_conversationId t,
                       a_chosen_version = V_rewritten, a_original_prompt = originalPrompt t,
                       a_rewritten_prompt = None \<rparr>]"
  using choosePromptVersion_resolves [OF assms(1) assms(2), of V_rewritten] assms(4)
  by (simp add: resolve_turn_def isEdited_def actualVersion_def finalEditedPrompt_def
      promptForAnswer_def answer_body_def truthy_def chosen_patch_def Let_def)

text \<open>
  The session in which the backend returned no rewrite and the draft holds a text; the
  request log then holds the classification call and the answer call.
\<close>

theorem choose_rewritten_without_rewrite_witness:
  "lookup_turn (js ''turn-1'') demo_no_rewrite = Some demo_no_rewrite_turn
   \<and> find_turn (js ''turn-1'') (turns demo_no_rewrite) = None
   \<and> reasoningStage demo_no_rewrite_turn = Some Rewritten
   \<and> rewritten_prompt demo_no_rewrite_turn = None
   \<and> draftRewrite demo_no_rewrite = js ''Teach me''
   \<and> find_turn (js ''turn-1'') (turns (choosePromptVersion (js ''turn-1'') V_rewritten demo_no_rewrite))
       = Some (demo_no_rewrite_turn\<lparr> chosenPromptVersion := Some V_rewritten,
                 edited_prompt := None, reasoningStage := Some Answering,
                 final_answer := None \<rparr>)
   \<and> requests (choosePromptVersion (js ''turn-1'') V_rewritten demo_no_rewrite)
       = [Interact (js ''What is reinforcement learning?'') True (Some (js ''learning'')) None,
          Answer \<lparr> a_prompt = js ''What is reinforcement learning?'',
                   a_mode = Some (js ''learning''), a_intent = Some (js ''conceptual''),
                   a_topic = Some (js ''reinforcement learning''),
                   a_interaction_id = Some (js ''i-1''), a_conversationId = Some (js ''c-1''),
                   a_chosen_version = V_rewritten,
                   a_original_prompt = js ''What is reinforcement learning?'',
                   a_rewritten_prompt = None \<rparr>]"
proof -
  have h1: "lookup_turn (js ''turn-1'') demo_no_rewrite = Some demo_no_rewrite_turn"
    by (simp add: more_demo_defs handler_defs patch_defs value_defs)
  have h2: "find_turn (js ''turn-1'') (turns demo_no_rewrite) = None"
    by (simp add: more_demo_defs handler_defs patch_defs value_defs)
  have h3: "reasoningStage demo_no_rewrite_turn = Some Rewritten"
    and h4: "rewritten_prompt demo_no_rewrite_turn = None"
    and h5: "originalPrompt demo_no_rewrite_turn = js ''What is reinforcement learning?''"
      "turn_mode demo_no_rewrite_turn = Some (js ''learning'')"
      "intent demo_no_rewrite_turn = Some (js ''conceptual'')"
      "topic demo_no_rewrite_turn = Some (js ''reinforcement learning'')"
      "interaction_id demo_no_rewrite_turn = Some (js ''i-1'')"
      "turn_conversationId demo_no_rewrite_turn = Some (js ''c-1'')"
    by (simp_all add: more_demo_defs patch_defs value_defs)
  have h6: "draftRewrite demo_no_rewrite = js ''Teach me''"
    by (simp add: demo_no_rewrite_def)
  have h7: "requests demo_no_rewrite
      = [Interact (js ''What is reinforcement learning?'') True (Some (js ''learning'')) None]"
    by (simp add: more_demo_defs handler_defs patch_defs value_defs)
  from h2 have h2': "pending_is (js ''turn-1'') (pendingTurn demo_no_rewrite) \<longrightarrow>
      find_turn (js ''turn-1'') (turns demo_no_rewrite) = None" by simp
  from choose_rewritten_without_rewrite [OF h1 h2' h3 h4] h1 h2 h3 h4 h5 h6 h7
  show ?thesis by simp
qed




subsection \<open>The handlers as updates of one turn\<close>

text \<open>
  Every handler changes a turn by one of the updates of \<open>apply_event\<close>, and new turns
  come from handleSubmit only.
\<close>

lemma handleSubmit_creates:
  "trim (prompt s) \<noteq> [] \<Longrightarrow> enhancerEnabled s \<Longrightarrow>
   pendingTurn (handleSubmit tid s) = Some (newTurn_enhanced tid s)
   \<and> turns (handleSubmit tid s) = turns s"
  "trim (prompt s) \<noteq> [] \<Longrightarrow> \<not> enhancerEnabled s \<Longrightarrow>
   turns (handleSubmit tid s) = turns s @ [newTurn_direct tid s]
   \<and> pendingTurn (handleSubmit tid s) = pendingTurn s"
  by (simp_all add: handleSubmit_def)

lemma handlers_apply_events:
  "pendingTurn (handleSubmit_enhanced_ok c d s)
     = map_option (apply_event (EvClassified d)) (pendingTurn s)"
  "pendingTurn (handleSubmit_enhanced_err msg s)
     = map_option (apply_event (EvClassifyFailed msg)) (pendingTurn s)"
  "turns (handleSubmit_direct_ok tid c d s)
     = update_turn tid (apply_event (EvDirectAnswered d)) (turns s)"
  "turns (handleSubmit_direct_err tid msg s)
     = update_turn tid (apply_event (EvAnswerFailed msg)) (turns s)"
  "turns (choosePromptVersion_ok tid answer s)
     = update_turn tid (apply_event (EvAnswered answer)) (turns s)"
  "turns (choosePromptVersion_err tid msg s)
     = update_turn tid (apply_event (EvAnswerFailed msg)) (turns s)"
  "pending_is tid p \<Longrightarrow>
   pendingTurn (handleRegenerate_ok tid p d s)
     = map_option (apply_event (EvRegeneratedPending d)) (pendingTurn s)"
  "\<not> pending_is tid p \<Longrightarrow>
   turns (handleRegenerate_ok tid p d s)
     = update_turn tid (apply_event (EvRegeneratedListed d)) (turns s)"
  "obj_get target (conversations s) = Some conv \<Longrightarrow> conversationId s \<noteq> Some target \<Longrightarrow>
   turns (switchConversation target s) = map (apply_event EvReloaded) (conv_turns conv)"
  by (simp_all add: handler_defs switchConversation_def switchConversation_from_def
      cong: map_cong option.map_cong)

lemma choosePromptVersion_applies_event:
  assumes "lookup_turn tid s = Some t"
    and "pending_is tid (pendingTurn s) \<longrightarrow> find_turn tid (turns s) = None"
  shows "find_turn tid (turns (choosePromptVersion tid v s))
           = Some (apply_event (EvChoose v (draftRewrite s)) t)"
  using choosePromptVersion_resolves(1) [OF assms] by simp

subsection \<open>The variant and the edited prompt along the life of a turn\<close>

lemma apply_events_snoc: "apply_events (es @ [e]) t = apply_event e (apply_events es t)"
  by (simp add: apply_events_def)

lemma apply_events_Nil: "apply_events [] t = t"
  by (simp add: apply_events_def)

lemma regenerated_after_choice_snoc:
  "regenerated_after_choice (es @ [e])
     = (\<not> is_choose e \<and> (is_regenerate e \<or> regenerated_after_choice es))"
  by (simp add: regenerated_after_choice_def)

lemma variant_inv_new:
  "variant_inv [] (newTurn_enhanced tid s)" "variant_inv [] (newTurn_direct tid s)"
  by (simp_all add: variant_inv_def newTurn_enhanced_def newTurn_direct_def)

lemma variant_inv_resolve: "variant_inv (es @ [EvChoose v d]) (resolve_turn v d t)"
  by (cases v)
     (simp_all add: variant_inv_def resolve_turn_def chosen_patch_def isEdited_def
      actualVersion_def finalEditedPrompt_def truthy_def Let_def)

lemma variant_inv_rehydrate: "variant_inv es t \<Longrightarrow> variant_inv (es @ [EvReloaded]) (rehydrate t)"
  by (auto simp: variant_inv_def rehydrate_def or_null_def regenerated_after_choice_snoc)

lemma variant_inv_step: "variant_inv es t \<Longrightarrow> variant_inv (es @ [e]) (apply_event e t)"
proof (cases e)
  case (EvChoose v d)
  then show ?thesis by (simp add: variant_inv_resolve)
next
  case EvReloaded
  assume "variant_inv es t"
  with EvReloaded show ?thesis by (simp add: variant_inv_rehydrate)
qed (auto simp: variant_inv_def patch_defs regenerated_after_choice_snoc)

lemma variant_inv_run: "variant_inv [] t \<Longrightarrow> variant_inv es (apply_events es t)"
proof (induction es rule: rev_induct)
  case Nil
  then show ?case by (simp add: apply_events_Nil)
next
  case (snoc e es)
  then have "variant_inv es (apply_events es t)" by simp
  then have "variant_inv (es @ [e]) (apply_event e (apply_events es t))"
    by (rule variant_inv_step)
  then show ?case by (simp add: apply_events_snoc)
qed

text \<open>
  Claim C1, as the code has it. Take a turn created by handleSubmit and any sequence of
  the orchestrator's updates, in any order and whatever the stage of the turn. If the
  turn has an edited prompt, its chosen variant is \<open>edited\<close> or \<open>original\<close>. If its
  chosen variant is \<open>edited\<close> and no regenerate was applied after the last choice, its
  edited prompt is a non-empty string. So a turn resolved as \<open>rewritten\<close>, or not yet
  resolved, has no edited prompt; a turn resolved as \<open>original\<close> may keep the draft the
  user had typed; and a regenerate resets the edited prompt and keeps the variant.
\<close>

theorem edited_prompt_follows_variant:
  assumes "t0 = newTurn_enhanced tid s \<or> t0 = newTurn_direct tid s"
  shows "(edited_prompt (apply_events es t0) \<noteq> None \<longrightarrow>
            chosenPromptVersion (apply_events es t0) = Some V_edited
            \<or> chosenPromptVersion (apply_events es t0) = Some V_original)
         \<and> (chosenPromptVersion (apply_events es t0) = Some V_edited
              \<and> \<not> regenerated_after_choice es \<longrightarrow>
              edited_prompt (apply_events es t0) \<noteq> None
              \<and> edited_prompt (apply_events es t0) \<noteq> Some [])"
proof -
  from assms have "variant_inv [] t0" by (auto simp: variant_inv_new)
  then have "variant_inv es (apply_events es t0)" by (rule variant_inv_run)
  then show ?thesis by (auto simp: variant_inv_def truthy_def split: option.splits)
qed

text \<open>
  The life of \<open>demo_events\<close>, where the regenerate comes before the choice: the turn
  ends resolved as \<open>edited\<close>, with its edited prompt in place after the failed answer
  and the reload.
\<close>

theorem edited_prompt_follows_variant_witness:
  "apply_events demo_events demo_new_turn = demo_final_turn
   \<and> \<not> regenerated_after_choice demo_events
   \<and> chosenPromptVersion demo_final_turn = Some V_edited
   \<and> edited_prompt demo_final_turn \<noteq> None
   \<and> edited_prompt demo_final_turn \<noteq> Some []"
proof -
  have new: "demo_new_turn
               = newTurn_enhanced (js ''turn-1'')
                   (initial_state\<lparr> prompt := js ''What is reinforcement learning?'' \<rparr>)
             \<or> demo_new_turn
               = newTurn_direct (js ''turn-1'')
                   (initial_state\<lparr> prompt := js ''What is reinforcement learning?'' \<rparr>)"
    by (simp add: demo_new_turn_def)
  have run: "apply_events demo_events demo_new_turn = demo_final_turn"
    by (simp add: demo_events_def demo_final_turn_def apply_events_def)
  have noregen: "\<not> regenerated_after_choice demo_events"
    by (simp add: demo_events_def regenerated_after_choice_def)
  have chosen: "chosenPromptVersion demo_final_turn = Some V_edited"
    by (simp add: last_demo_defs patch_defs choose_defs value_defs Let_def)
  from edited_prompt_follows_variant [OF new, of demo_events] run noregen chosen
  show ?thesis by simp
qed

text \<open>
  Claim C1 in the words of the specification fails in both directions. When the user
  edits the draft and then picks the original prompt, the turn is recorded as
  \<open>original\<close> and carries the trimmed draft as its edited prompt. When a turn resolved
  as \<open>edited\<close> is regenerated, it stays \<open>edited\<close> and its edited prompt is null.
\<close>

theorem original_keeps_edited_draft_counterexample:
  "map chosenPromptVersion (turns (choosePromptVersion (js ''turn-1'') V_original demo_edited_draft))
     = [Some V_original]
   \<and> map edited_prompt (turns (choosePromptVersion (js ''turn-1'') V_original demo_edited_draft))
     = [Some (js ''Teach me reinforcement learning.'')]
   \<and> map chosenPromptVersion (turns demo_edited_done) = [Some V_edited]
   \<and> map edited_prompt (turns demo_edited_done) = [Some (js ''Teach me reinforcement learning.'')]
   \<and> map chosenPromptVersion (turns demo_regenerated_done) = [Some V_edited]
   \<and> map edited_prompt (turns demo_regenerated_done) = [None]"
  by (simp add: regenerated_demo_defs handler_defs patch_defs choose_defs value_defs Let_def)

subsection \<open>A failed answer call\<close>

text \<open>
  Claim C7, as the code has it. When the answer call fails, in choosePromptVersion or
  in handleSubmit with the enhancer off, a turn of the chat feed with that identifier
  ends in stage done with the text \<open>Error: \<close> followed by the message as its answer; its
  chosen variant, edited prompt, rewritten prompt, strategy, rationale, feedback, intent
  and topic are as before, every other turn is untouched, and no further remote call is
  issued. When the chat feed holds no turn with that identifier, the chat feed stays as
  it is; the stored conversations are never touched.
\<close>

theorem answer_failure_terminates_turn:
  assumes "s' = choosePromptVersion_err tid msg s \<or> s' = handleSubmit_direct_err tid msg s"
  shows "length (turns s') = length (turns s)
         \<and> (\<forall>i < length (turns s). turn_id (turns s ! i) = tid \<longrightarrow>
              turns s' ! i = (turns s ! i)\<lparr> final_answer := Some (js ''Error: '' @ msg),
                                             reasoningStage := Some Done \<rparr>
              \<and> reasoningStage (turns s' ! i) = Some Done
              \<and> final_answer (turns s' ! i) = Some (js ''Error: '' @ msg)
              \<and> chosenPromptVersion (turns s' ! i) = chosenPromptVersion (turns s ! i)
              \<and> edited_prompt (turns s' ! i) = edited_prompt (turns s ! i)
              \<and> rewritten_prompt (turns s' ! i) = rewritten_prompt (turns s ! i)
              \<and> rewrite_strategy (turns s' ! i) = rewrite_strategy (turns s ! i)
              \<and> decisionRationale (turns s' ! i) = decisionRationale (turns s ! i)
              \<and> promptFeedback (turns s' ! i) = promptFeedback (turns s ! i)
              \<and> intent (turns s' ! i) = intent (turns s ! i)
              \<and> topic (turns s' ! i) = topic (turns s ! i))
         \<and> (\<forall>j < length (turns s). turn_id (turns s ! j) \<noteq> tid \<longrightarrow> turns s' ! j = turns s ! j)
         \<and> (find_turn tid (turns s) = None \<longrightarrow> turns s' = turns s)
         \<and> conversations s' = conversations s
         \<and> localStorage_conversations s' = localStorage_conversations s
         \<and> requests s' = requests s
         \<and> pendingTurn s' = pendingTurn s"
proof -
  from assms have ts: "turns s' = update_turn tid (answer_failed_patch msg) (turns s)"
    and rest: "requests s' = requests s" "pendingTurn s' = pendingTurn s"
      "conversations s' = conversations s"
      "localStorage_conversations s' = localStorage_conversations s"
    by (auto simp: choosePromptVersion_err_def handleSubmit_direct_err_def)
  have absent: "update_turn tid f ts = ts" if "find_turn tid ts = None" for f ts
    using that by (induction ts) (auto simp: update_turn_def find_turn_def split: if_splits)
  have p1: "\<forall>i < length (turns s). turn_id (turns s ! i) = tid \<longrightarrow>
             turns s' ! i = answer_failed_patch msg (turns s ! i)"
    by (simp add: ts update_turn_nth)
  have p2: "\<forall>j < length (turns s). turn_id (turns s ! j) \<noteq> tid \<longrightarrow> turns s' ! j = turns s ! j"
    by (simp add: ts update_turn_nth)
  have p3: "find_turn tid (turns s) = None \<longrightarrow> turns s' = turns s"
    by (simp add: ts absent)
  have p4: "length (turns s') = length (turns s)" by (simp add: ts)
  from p1 have p1': "\<forall>i < length (turns s). turn_id (turns s ! i) = tid \<longrightarrow>
              turns s' ! i = (turns s ! i)\<lparr> final_answer := Some (js ''Error: '' @ msg),
                                             reasoningStage := Some Done \<rparr>
              \<and> reasoningStage (turns s' ! i) = Some Done
              \<and> final_answer (turns s' ! i) = Some (js ''Error: '' @ msg)
              \<and> chosenPromptVersion (turns s' ! i) = chosenPromptVersion (turns s ! i)
              \<and> edited_prompt (turns s' ! i) = edited_prompt (turns s ! i)
              \<and> rewritten_prompt (turns s' ! i) = rewritten_prompt (turns s ! i)
              \<and> rewrite_strategy (turns s' ! i) = rewrite_strategy (turns s ! i)
              \<and> decisionRationale (turns s' ! i) = decisionRationale (turns s ! i)
              \<and> promptFeedback (turns s' ! i) = promptFeedback (turns s ! i)
              \<and> intent (turns s' ! i) = intent (turns s ! i)
              \<and> topic (turns s' ! i) = topic (turns s ! i)"
    by (simp add: answer_failed_patch_def)
  show ?thesis
    by (intro conjI) (rule p4 p1' p2 p3 rest)+
qed

text \<open>
  The session in which the edited draft was chosen and the answer call then fails.
\<close>

theorem answer_failure_terminates_turn_witness:
  "turn_id (turns demo_answering ! 0) = js ''turn-1''
   \<and> reasoningStage (turns demo_answering ! 0) = Some Answering
   \<and> chosenPromptVersion (turns demo_answering ! 0) = Some V_edited
   \<and> reasoningStage
       (turns (choosePromptVersion_err (js ''turn-1'') (js ''Failed to fetch'') demo_answering) ! 0)
       = Some Done
   \<and> final_answer
       (turns (choosePromptVersion_err (js ''turn-1'') (js ''Failed to fetch'') demo_answering) ! 0)
       = Some (js ''Error: Failed to fetch'')
   \<and> chosenPromptVersion
       (turns (choosePromptVersion_err (js ''turn-1'') (js ''Failed to fetch'') demo_answering) ! 0)
       = Some V_edited
   \<and> requests (choosePromptVersion_err (js ''turn-1'') (js ''Failed to fetch'') demo_answering)
       = requests demo_answering"
proof -
  have ts: "map turn_id (turns demo_answering) = [js ''turn-1'']"
    "map reasoningStage (turns demo_answering) = [Some Answering]"
    "map chosenPromptVersion (turns demo_answering) = [Some V_edited]"
    by (simp_all add: last_demo_defs handler_defs patch_defs choose_defs value_defs Let_def)
  then have len: "0 < length (turns demo_answering)" by (cases "turns demo_answering") auto
  from ts have t0: "turn_id (turns demo_answering ! 0) = js ''turn-1''"
    "reasoningStage (turns demo_answering ! 0) = Some Answering"
    "chosenPromptVersion (turns demo_answering ! 0) = Some V_edited"
    by (cases "turns demo_answering"; simp)+
  have e: "js ''Error: '' @ js ''Failed to fetch'' = js ''Error: Failed to fetch''"
    by (simp add: js_def)
  note all = answer_failure_terminates_turn [OF disjI1 [OF refl],
      of "js ''turn-1''" "js ''Failed to fetch''" demo_answering]
  note turn = all [THEN conjunct2, THEN conjunct1, rule_format, OF len t0(1)]
  have req: "requests (choosePromptVersion_err (js ''turn-1'') (js ''Failed to fetch'') demo_answering)
       = requests demo_answering"
    by (rule all [THEN conjunct2, THEN conjunct2, THEN conjunct2, THEN conjunct2, THEN conjunct2,
          THEN conjunct2, THEN conjunct1])
  from turn t0 e req show ?thesis by simp
qed

text \<open>
  Claim C7 in the words of the specification fails when the user has started a new
  conversation while the answer was awaited: the failure finds no turn to update, and
  the turn stays in its stored conversation in stage answering with no answer, as the
  chat feed shows when the user switches back.
\<close>

theorem answer_failure_after_leaving_counterexample:
  "map turn_id (turns demo_answering) = [js ''turn-1'']
   \<and> map reasoningStage (turns demo_answering) = [Some Answering]
   \<and> turns demo_failed_away = []
   \<and> map turn_id (stored_turns (conversations demo_failed_away)) = [js ''turn-1'']
   \<and> map reasoningStage (stored_turns (conversations demo_failed_away)) = [Some Answering]
   \<and> map final_answer (stored_turns (conversations demo_failed_away)) = [None]
   \<and> map turn_id (turns (switchConversation (js ''c-1'') demo_failed_away)) = [js ''turn-1'']
   \<and> map reasoningStage (turns (switchConversation (js ''c-1'') demo_failed_away))
       = [Some Answering]
   \<and> map final_answer (turns (switchConversation (js ''c-1'') demo_failed_away)) = [None]"
  by (simp add: away_demo_defs handler_defs patch_defs choose_defs value_defs store_defs Let_def)

subsection \<open>Regenerate\<close>

text \<open>
  Claim C6, as the code has it. When the regenerated rewrite arrives, the turn found
  under the identifier has its rewritten prompt (an empty one becomes null), strategy,
  rationale and feedback replaced by those of the response and its edited prompt reset
  to null; for the pending turn the interaction identifier is replaced as well. Its
  identifier, original prompt, mode, intent, topic, final answer, stage and chosen
  variant stay as they were: the intent and topic of the new response are not read.
  The call is issued with the turn's original prompt, mode and conversation, and a
  failed call leaves the turn as it was.
\<close>

theorem regenerate_frame:
  assumes "lookup_turn tid s = Some t"
    and "s' = handleRegenerate_ok tid (pendingTurn s) d s"
  shows "lookup_turn tid s'
           = Some (t\<lparr> rewritten_prompt := or_null (r_rewritten_prompt d),
                       rewrite_strategy := r_rewrite_strategy d,
                       decisionRationale := r_decisionRationale d,
                       promptFeedback := r_promptFeedback d,
                       edited_prompt := None,
                       interaction_id := (if pending_is tid (pendingTurn s)
                                          then r_interaction_id d else interaction_id t) \<rparr>)
         \<and> (\<forall>t'. lookup_turn tid s' = Some t' \<longrightarrow>
               turn_id t' = turn_id t \<and> originalPrompt t' = originalPrompt t
               \<and> turn_mode t' = turn_mode t
               \<and> intent t' = intent t \<and> topic t' = topic t
               \<and> final_answer t' = final_answer t
               \<and> reasoningStage t' = reasoningStage t
               \<and> chosenPromptVersion t' = chosenPromptVersion t)
         \<and> (truthy (turn_mode t) \<longrightarrow>
               requests (handleRegenerate tid s)
                 = requests s @ [Interact (originalPrompt t) True (turn_mode t)
                                   (turn_conversationId t)])
         \<and> lookup_turn tid (handleRegenerate_err s) = Some t"
proof -
  have tid: "turn_id t = tid" using assms(1) by (rule lookup_turn_id)
  have main: "lookup_turn tid s'
           = Some (t\<lparr> rewritten_prompt := or_null (r_rewritten_prompt d),
                       rewrite_strategy := r_rewrite_strategy d,
                       decisionRationale := r_decisionRationale d,
                       promptFeedback := r_promptFeedback d,
                       edited_prompt := None,
                       interaction_id := (if pending_is tid (pendingTurn s)
                                          then r_interaction_id d else interaction_id t) \<rparr>)"
  proof (cases "pending_is tid (pendingTurn s)")
    case True
    with assms(1) have "pendingTurn s = Some t" by (simp add: lookup_turn_def)
    with True tid show ?thesis
      by (simp add: assms(2) handleRegenerate_ok_def lookup_turn_def pending_is_def
          regenerated_patch_pending_def)
  next
    case False
    with assms(1) have found: "find_turn tid (turns s) = Some t" by (simp add: lookup_turn_def)
    have "find_turn tid (update_turn tid (regenerated_patch_listed d) (turns s))
            = Some (regenerated_patch_listed d t)"
      using found tid by (simp add: find_turn_update)
    with False show ?thesis
      by (simp add: assms(2) handleRegenerate_ok_def lookup_turn_def
          regenerated_patch_listed_def)
  qed
  have req: "truthy (turn_mode t) \<longrightarrow>
               requests (handleRegenerate tid s)
                 = requests s @ [Interact (originalPrompt t) True (turn_mode t)
                                   (turn_conversationId t)]"
    using assms(1) by (simp add: handleRegenerate_def)
  have err: "lookup_turn tid (handleRegenerate_err s) = Some t"
    using assms(1) by (simp add: handleRegenerate_err_def lookup_turn_def split: if_splits)
  from main req err show ?thesis by simp
qed

text \<open>
  The classified pending turn of the worked session, regenerated.
\<close>

theorem regenerate_frame_witness:
  "lookup_turn (js ''turn-1'') demo_rewritten = Some demo_turn
   \<and> truthy (turn_mode demo_turn)
   \<and> lookup_turn (js ''turn-1'')
       (handleRegenerate_ok (js ''turn-1'') (pendingTurn demo_rewritten) demo_second_response
          demo_rewritten)
       = Some (demo_turn
                \<lparr> rewritten_prompt := Some (js ''Walk me through reinforcement learning.''),
                  rewrite_strategy := Some (js ''learning_explanation''),
                  decisionRationale := Some (js ''Conceptual question. Expanded for depth.''),
                  promptFeedback := Some (FeedbackText (js ''- Added steps'')),
                  edited_prompt := None,
                  interaction_id := Some (js ''i-2'') \<rparr>)
   \<and> requests (handleRegenerate (js ''turn-1'') demo_rewritten)
       = requests demo_rewritten
         @ [Interact (js ''What is reinforcement learning?'') True (Some (js ''learning''))
              (Some (js ''c-1''))]"
proof -
  have look: "lookup_turn (js ''turn-1'') demo_rewritten = Some demo_turn"
    by (simp add: last_demo_defs handler_defs patch_defs value_defs)
  have pend: "pending_is (js ''turn-1'') (pendingTurn demo_rewritten)"
    by (simp add: last_demo_defs handler_defs patch_defs value_defs)
  have m: "truthy (turn_mode demo_turn)" "turn_mode demo_turn = Some (js ''learning'')"
    "originalPrompt demo_turn = js ''What is reinforcement learning?''"
    "turn_conversationId demo_turn = Some (js ''c-1'')"
    by (simp_all add: last_demo_defs patch_defs value_defs)
  have d: "or_null (r_rewritten_prompt demo_second_response)
             = Some (js ''Walk me through reinforcement learning.'')"
    "r_rewrite_strategy demo_second_response = Some (js ''learning_explanation'')"
    "r_decisionRationale demo_second_response = Some (js ''Conceptual question. Expanded for depth.'')"
    "r_promptFeedback demo_second_response = Some (FeedbackText (js ''- Added steps''))"
    "r_interaction_id demo_second_response = Some (js ''i-2'')"
    by (simp_all add: demo_second_response_def demo_response_def value_defs)
  note frame = regenerate_frame [OF look refl, of demo_second_response]
  from frame [THEN conjunct1] pend d
  have after: "lookup_turn (js ''turn-1'')
       (handleRegenerate_ok (js ''turn-1'') (pendingTurn demo_rewritten) demo_second_response
          demo_rewritten)
       = Some (demo_turn
                \<lparr> rewritten_prompt := Some (js ''Walk me through reinforcement learning.''),
                  rewrite_strategy := Some (js ''learning_explanation''),
                  decisionRationale := Some (js ''Conceptual question. Expanded for depth.''),
                  promptFeedback := Some (FeedbackText (js ''- Added steps'')),
                  edited_prompt := None,
                  interaction_id := Some (js ''i-2'') \<rparr>)"
    by simp
  from frame [THEN conjunct2, THEN conjunct2, THEN conjunct1] m
  have req: "requests (handleRegenerate (js ''turn-1'') demo_rewritten)
       = requests demo_rewritten
         @ [Interact (js ''What is reinforcement learning?'') True (Some (js ''learning''))
              (Some (js ''c-1''))]"
    by simp
  from look m(1) after req show ?thesis by (intro conjI)
qed

text \<open>
  Claim C6 in the words of the specification fails on the intent: the second response
  classifies the prompt as debugging, and the turn still says conceptual.
\<close>

theorem regenerate_keeps_intent_counterexample:
  "map_option intent
     (pendingTurn (handleRegenerate_ok (js ''turn-1'') (pendingTurn demo_rewritten)
                     demo_second_response demo_rewritten))
     = Some (Some (js ''conceptual''))
   \<and> r_intent demo_second_response = Some (js ''debugging'')
   \<and> js ''conceptual'' \<noteq> js ''debugging''"
  by (simp add: demo_defs demo_second_response_def handler_defs patch_defs value_defs)

subsection \<open>The conversations object\<close>

lemma obj_get_delete_other: "k \<noteq> target \<Longrightarrow> obj_get k (obj_delete target al) = obj_get k al"
  by (induction al) (auto simp: obj_get_def obj_delete_def)

lemma obj_keys_delete: "obj_keys (obj_delete target al) = filter (\<lambda>k. k \<noteq> target) (obj_keys al)"
  by (induction al) (auto simp: obj_keys_def obj_delete_def)

lemma obj_get_insert_index: "obj_get k (insert_index k v al) = Some v"
  by (induction al) (auto simp: obj_get_def)

lemma obj_get_replace:
  "k \<in> set (obj_keys al) \<Longrightarrow>
   obj_get k (map (\<lambda>(k', v'). if k' = k then (k', v) else (k', v')) al) = Some v"
  by (induction al) (auto simp: obj_get_def obj_keys_def)

lemma obj_get_append_new: "k \<notin> set (obj_keys al) \<Longrightarrow> obj_get k (al @ [(k, v)]) = Some v"
  by (induction al) (auto simp: obj_get_def obj_keys_def)

lemma obj_get_set_same: "obj_get k (obj_set k v al) = Some v"
  by (simp add: obj_set_def obj_get_insert_index obj_get_replace obj_get_append_new)

lemma insert_index_not_empty: "insert_index k v al \<noteq> []"
  by (cases al) (auto split: if_splits)

lemma obj_set_not_empty: "obj_set k v al \<noteq> []"
  by (cases al) (auto simp: obj_set_def obj_keys_def insert_index_not_empty)

lemma obj_get_in_keys: "obj_get k al = Some v \<Longrightarrow> k \<in> set (obj_keys al)"
  by (auto simp: obj_get_def obj_keys_def dest: map_of_SomeD intro: rev_image_eqI)

lemma obj_keys_has_entry: "k \<in> set (obj_keys al) \<Longrightarrow> \<exists>v. obj_get k al = Some v"
  by (induction al) (auto simp: obj_get_def obj_keys_def)

text \<open>
  A conversation saved under a new identifier that is not an array index comes last in
  the key order, and saving under a known identifier keeps the order.
\<close>

lemma obj_keys_set_new:
  "k \<notin> set (obj_keys al) \<Longrightarrow> \<not> is_array_index k \<Longrightarrow>
   obj_keys (obj_set k v al) = obj_keys al @ [k]"
  by (simp add: obj_set_def obj_keys_def)

lemma obj_keys_set_known: "k \<in> set (obj_keys al) \<Longrightarrow> obj_keys (obj_set k v al) = obj_keys al"
  by (induction al) (auto simp: obj_set_def obj_keys_def)

subsection \<open>Deleting the active conversation\<close>

text \<open>
  Claim C5, as the code has it. When the active conversation is deleted it leaves the
  store. If other conversations remain, the one whose identifier comes last in the key
  order of the store becomes active, whatever the update times, and its rehydrated turns
  are shown; if none remains, the active pointer is null and the turn list and the store
  are empty.
\<close>

theorem delete_active_falls_back_to_last_key:
  assumes "dialog_conversationId (deleteConfirmDialog s) = Some target"
    and "target \<noteq> []"
    and "conversationId s = Some target"
  shows "let remaining = filter (\<lambda>k. k \<noteq> target) (obj_keys (conversations s));
             s' = handleConfirmDelete s
         in target \<notin> set (obj_keys (conversations s'))
            \<and> (remaining \<noteq> [] \<longrightarrow>
                 conversationId s' = Some (last remaining)
                 \<and> (\<exists>conv. obj_get (last remaining) (conversations s') = Some conv
                            \<and> turns s' = map rehydrate (conv_turns conv)))
            \<and> (remaining = [] \<longrightarrow>
                 conversationId s' = None \<and> turns s' = [] \<and> conversations s' = [])"
proof -
  define remaining where "remaining = filter (\<lambda>k. k \<noteq> target) (obj_keys (conversations s))"
  define s' where "s' = handleConfirmDelete s"
  have convs: "conversations s' = obj_delete target (conversations s)"
    using assms
    by (auto simp: s'_def handleConfirmDelete_def Let_def switchConversation_from_def
        startNewConversation_def split: option.splits)
  have gone: "target \<notin> set (obj_keys (conversations s'))"
    by (simp add: convs obj_keys_delete)
  have some: "conversationId s' = Some (last remaining)
       \<and> (\<exists>conv. obj_get (last remaining) (conversations s') = Some conv
                  \<and> turns s' = map rehydrate (conv_turns conv))" if ne: "remaining \<noteq> []"
  proof -
    from ne have "last remaining \<in> set remaining" by simp
    then have mem: "last remaining \<in> set (obj_keys (conversations s))"
      and neq: "last remaining \<noteq> target" by (auto simp: remaining_def)
    from mem obtain conv where conv: "obj_get (last remaining) (conversations s) = Some conv"
      by (auto dest: obj_keys_has_entry)
    from neq have "obj_get (last remaining) (conversations s') = Some conv"
      by (simp add: convs obj_get_delete_other conv)
    moreover have "conversationId s' = Some (last remaining)"
      "turns s' = map rehydrate (conv_turns conv)"
      using assms ne neq conv
      by (simp_all add: s'_def handleConfirmDelete_def Let_def switchConversation_from_def
          remaining_def [symmetric])
    ultimately show ?thesis by simp
  qed
  have none: "conversationId s' = None \<and> turns s' = [] \<and> conversations s' = []"
    if e: "remaining = []"
  proof -
    have "conversationId s' = None" "turns s' = []"
      using assms e
      by (simp_all add: s'_def handleConfirmDelete_def Let_def startNewConversation_def
          remaining_def [symmetric])
    moreover have "obj_keys (conversations s') = []"
      using e by (simp add: convs obj_keys_delete remaining_def)
    then have "conversations s' = []" by (simp add: obj_keys_def)
    ultimately show ?thesis by simp
  qed
  from gone some none show ?thesis
    unfolding Let_def remaining_def [symmetric] s'_def [symmetric] by blast
qed

text \<open>
  Deleting the active conversation c from the store a, b, c, and from the store that
  holds only c.
\<close>

theorem delete_active_falls_back_to_last_key_witness:
  "dialog_conversationId (deleteConfirmDialog demo_store) = Some (js ''c'')
   \<and> conversationId demo_store = Some (js ''c'')
   \<and> obj_keys (conversations demo_store) = [js ''a'', js ''b'', js ''c'']
   \<and> conversationId (handleConfirmDelete demo_store) = Some (js ''b'')
   \<and> js ''c'' \<notin> set (obj_keys (conversations (handleConfirmDelete demo_store)))
   \<and> conversationId (handleConfirmDelete demo_single_store) = None
   \<and> turns (handleConfirmDelete demo_single_store) = []
   \<and> conversations (handleConfirmDelete demo_single_store) = []"
proof -
  have ne: "js ''c'' \<noteq> []" by (simp add: js_def)
  have d: "dialog_conversationId (deleteConfirmDialog demo_store) = Some (js ''c'')"
    and a: "conversationId demo_store = Some (js ''c'')"
    and k: "obj_keys (conversations demo_store) = [js ''a'', js ''b'', js ''c'']"
    by (simp_all add: demo_store_def deleteConversation_def initial_state_def obj_keys_def)
  have d1: "dialog_conversationId (deleteConfirmDialog demo_single_store) = Some (js ''c'')"
    and a1: "conversationId demo_single_store = Some (js ''c'')"
    and k1: "obj_keys (conversations demo_single_store) = [js ''c'']"
    by (simp_all add: demo_single_store_def deleteConversation_def initial_state_def obj_keys_def)
  have rem: "filter (\<lambda>k. k \<noteq> js ''c'') [js ''a'', js ''b'', js ''c''] = [js ''a'', js ''b'']"
    by (simp add: js_def)
  from delete_active_falls_back_to_last_key [OF d ne a]
  have "conversationId (handleConfirmDelete demo_store) = Some (js ''b'')
        \<and> js ''c'' \<notin> set (obj_keys (conversations (handleConfirmDelete demo_store)))"
    by (simp add: Let_def k js_def)
  moreover from delete_active_falls_back_to_last_key [OF d1 ne a1]
  have "conversationId (handleConfirmDelete demo_single_store) = None
        \<and> turns (handleConfirmDelete demo_single_store) = []
        \<and> conversations (handleConfirmDelete demo_single_store) = []"
    by (simp add: Let_def k1 js_def)
  ultimately show ?thesis using d a k by simp
qed

text \<open>
  Claim C5 in the words of the specification fails on the store a, b, c: after c is
  deleted b is active, while the sidebar, ordered by update time, puts a first.
\<close>

theorem delete_fallback_ignores_update_time_counterexample:
  "conversationId (handleConfirmDelete demo_store) = Some (js ''b'')
   \<and> map fst (getConversationList (handleConfirmDelete demo_store)) = [js ''a'', js ''b'']
   \<and> map (updatedAt \<circ> snd) (getConversationList (handleConfirmDelete demo_store))
       = [300, 100]"
  by (simp add: demo_store_defs initial_state_def store_defs js_def)

subsection \<open>Persistence\<close>

lemma rehydrate_fixed:
  assumes "reasoningStage t \<noteq> None" "edited_prompt t \<noteq> Some []" "rewrite_strategy t \<noteq> Some []"
    "decisionRationale t \<noteq> Some []" "promptFeedback t \<noteq> Some (FeedbackText [])"
    "interaction_id t \<noteq> Some []" "showReasoning t \<noteq> None"
  shows "rehydrate t = t"
proof -
  have "or_null (edited_prompt t) = edited_prompt t"
    "or_null (rewrite_strategy t) = rewrite_strategy t"
    "or_null (decisionRationale t) = decisionRationale t"
    "or_null (interaction_id t) = interaction_id t"
    using assms by (auto simp: or_null_def truthy_def split: option.splits)
  moreover have "fb_or_null (promptFeedback t) = promptFeedback t"
    using assms(5) by (auto simp: fb_or_null_def fb_truthy_def split: option.splits feedback.splits)
  moreover from assms(1) obtain st where "reasoningStage t = Some st" by auto
  moreover from assms(7) obtain b where "showReasoning t = Some b" by auto
  ultimately show ?thesis by (simp add: rehydrate_def)
qed

lemma map_fixed: "(\<forall>x \<in> set xs. f x = x) \<Longrightarrow> map f xs = xs"
  by (induction xs) auto

lemma filter_all: "(\<forall>x \<in> set xs. P x) \<Longrightarrow> filter P xs = xs"
  by (induction xs) auto

text \<open>
  Claim C8, as the code has it. Take an active conversation with at least one turn, all
  turns in stage done, none with the final answer \<open>__LOADING__\<close> or the intent
  \<open>loading\<close>, and none with an empty string as edited prompt, strategy, rationale,
  feedback or interaction identifier, or without the \<open>showReasoning\<close> flag. After the
  effects have run, the store holds exactly these turns under the title derived from the
  first prompt; a reload of the page, and a switch to the conversation from any other
  one, show the same turn list, and saving again gives the same title.
\<close>

theorem persist_reload_roundtrip:
  assumes "conversationId s = Some cid" and "cid \<noteq> []"
    and "turns s = first # rest"
    and "\<forall>t \<in> set (turns s).
           reasoningStage t = Some Done
           \<and> final_answer t \<noteq> Some (js ''__LOADING__'') \<and> intent t \<noteq> Some (js ''loading'')
           \<and> edited_prompt t \<noteq> Some [] \<and> rewrite_strategy t \<noteq> Some []
           \<and> decisionRationale t \<noteq> Some [] \<and> promptFeedback t \<noteq> Some (FeedbackText [])
           \<and> interaction_id t \<noteq> Some [] \<and> showReasoning t \<noteq> None"
  shows "let s1 = run_effects now s
         in obj_get cid (conversations s1)
              = Some \<lparr> conv_turns = turns s, title = title_of first, updatedAt = now \<rparr>
            \<and> conversations (reload s1) = conversations s1
            \<and> conversationId (reload s1) = Some cid
            \<and> turns (reload s1) = turns s
            \<and> (\<forall>s2. conversations s2 = conversations s1 \<and> conversationId s2 \<noteq> Some cid \<longrightarrow>
                  conversationId (switchConversation cid s2) = Some cid
                  \<and> turns (switchConversation cid s2) = turns s)
            \<and> map_option title (obj_get cid (conversations (run_effects later (reload s1))))
                = Some (title_of first)"
proof -
  define conv where
    "conv = \<lparr> conv_turns = turns s, title = title_of first, updatedAt = now \<rparr>"
  define s1 where "s1 = run_effects now s"
  have complete: "filter is_complete (turns s) = turns s"
    using assms(4) by (intro filter_all) (simp add: is_complete_def)
  have fixed: "map rehydrate (turns s) = turns s"
    using assms(4) by (intro map_fixed) (simp add: rehydrate_fixed)
  have saved: "conversations s1 = obj_set cid conv (conversations s)"
    using assms(1,2,3) complete
    by (simp add: s1_def run_effects_def effect_save_turns_def effect_save_conversations_def
        effect_save_active_def conv_def)
  have stored: "localStorage_conversations s1 = Some (conversations s1)"
    "localStorage_active s1 = Some cid"
    using assms(1,2,3) complete
    by (simp_all add: s1_def run_effects_def effect_save_turns_def
        effect_save_conversations_def effect_save_active_def obj_set_not_empty truthy_def)
  have get: "obj_get cid (conversations s1) = Some conv"
    by (simp add: saved obj_get_set_same)
  have re: "conversations (reload s1) = conversations s1"
    "conversationId (reload s1) = Some cid" "turns (reload s1) = turns s"
    using assms(2) stored get complete fixed
    by (simp_all add: reload_def load_on_mount_def initial_state_def Let_def conv_def)
  have sw: "conversationId (switchConversation cid s2) = Some cid
            \<and> turns (switchConversation cid s2) = turns s"
    if "conversations s2 = conversations s1 \<and> conversationId s2 \<noteq> Some cid" for s2
    using that get fixed
    by (auto simp: switchConversation_def switchConversation_from_def conv_def)
  have again: "map_option title (obj_get cid (conversations (run_effects later (reload s1))))
                = Some (title_of first)"
    using re assms(2,3) complete
    by (simp add: run_effects_def effect_save_turns_def effect_save_conversations_def
        effect_save_active_def obj_get_set_same)
  from get re sw again show ?thesis
    unfolding Let_def s1_def [symmetric] conv_def by blast
qed

text \<open>
  The conversation created by the first answered question of the enhancer-off session.
\<close>

theorem persist_reload_roundtrip_witness:
  "conversationId demo_first_answered = Some (js ''c-1'')
   \<and> map turn_id (turns demo_first_answered) = [js ''turn-1'']
   \<and> map reasoningStage (turns demo_first_answered) = [Some Done]
   \<and> turns (reload (run_effects 5 demo_first_answered)) = turns demo_first_answered
   \<and> conversationId (reload (run_effects 5 demo_first_answered)) = Some (js ''c-1'')
   \<and> map_option title (obj_get (js ''c-1'') (conversations (run_effects 5 demo_first_answered)))
       = Some (js ''hi'')"
proof -
  define first where "first = direct_answered_patch demo_direct_response
     (newTurn_direct (js ''turn-1'') (initial_state\<lparr> enhancerEnabled := False, prompt := js ''hi'' \<rparr>))"
  have c: "conversationId demo_first_answered = Some (js ''c-1'')"
    and ts: "turns demo_first_answered = first # []"
    by (simp_all add: last_demo_defs first_def handler_defs store_defs patch_defs value_defs)
  have ne: "js ''c-1'' \<noteq> []" by (simp add: js_def)
  have ok: "\<forall>t \<in> set (turns demo_first_answered).
           reasoningStage t = Some Done
           \<and> final_answer t \<noteq> Some (js ''__LOADING__'') \<and> intent t \<noteq> Some (js ''loading'')
           \<and> edited_prompt t \<noteq> Some [] \<and> rewrite_strategy t \<noteq> Some []
           \<and> decisionRationale t \<noteq> Some [] \<and> promptFeedback t \<noteq> Some (FeedbackText [])
           \<and> interaction_id t \<noteq> Some [] \<and> showReasoning t \<noteq> None"
    by (simp add: ts first_def demo_direct_response_def patch_defs initial_state_def js_def)
  have f: "map turn_id [first] = [js ''turn-1'']" "map reasoningStage [first] = [Some Done]"
    "title_of first = js ''hi''"
    by (simp_all add: first_def patch_defs initial_state_def title_of_def js_def)
  from persist_reload_roundtrip [OF c ne ts ok, of 5 6] c ts f
  show ?thesis by (simp add: Let_def)
qed

text \<open>
  Claim C8 in the words of the specification fails on two conversations whose turns are
  all done. A turn whose answer is the text \<open>__LOADING__\<close> is dropped by the filter and
  is missing after the reload; a turn with an empty rationale comes back with a null
  rationale.
\<close>

theorem sentinel_turn_lost_counterexample:
  "map turn_id (turns demo_loading_answered) = [js ''turn-1'', js ''turn-2'']
   \<and> map reasoningStage (turns demo_loading_answered) = [Some Done, Some Done]
   \<and> map turn_id (turns (reload demo_loading_answered)) = [js ''turn-1'']
   \<and> map reasoningStage (turns demo_blank_rationale) = [Some Done]
   \<and> map decisionRationale (turns demo_blank_rationale) = [Some []]
   \<and> map decisionRationale (turns (reload demo_blank_rationale)) = [None]"
  by (simp add: last_demo_defs handler_defs store_defs patch_defs value_defs)

text \<open>
  Claim C3 does not hold of the code. The filter of the save effect tests the answer and
  the intent for two loading marks that nothing sets any more, and not the stage: the
  second question of the enhancer-off session is written to the store while it is being
  answered, and the reloaded page shows it in stage answering.
\<close>

theorem inflight_turn_survives_reload:
  "map turn_id (turns demo_second_submitted) = [js ''turn-1'', js ''turn-2'']
   \<and> map reasoningStage (turns demo_second_submitted) = [Some Done, Some Answering]
   \<and> map_option (map reasoningStage)
       (map_option conv_turns (obj_get (js ''c-1'') (conversations demo_second_submitted)))
       = Some [Some Done, Some Answering]
   \<and> map reasoningStage (turns (reload demo_second_submitted)) = [Some Done, Some Answering]"
  by (simp add: last_demo_defs handler_defs store_defs patch_defs value_defs)

subsection \<open>Trimming\<close>

lemma dropWhile_last: "dropWhile P xs \<noteq> [] \<Longrightarrow> last (dropWhile P xs) = last xs"
  by (induction xs) (auto split: if_splits)

lemma dropWhile_rev_keeps_head:
  assumes "xs \<noteq> []" "\<not> P (hd xs)"
  shows "rev (dropWhile P (rev xs)) \<noteq> []" "hd (rev (dropWhile P (rev xs))) = hd xs"
proof -
  from assms have "hd xs \<in> set (rev xs)" by simp
  with assms(2) have ne: "dropWhile P (rev xs) \<noteq> []"
    by (metis dropWhile_eq_Nil_conv)
  then show "rev (dropWhile P (rev xs)) \<noteq> []" by simp
  from ne have "last (dropWhile P (rev xs)) = last (rev xs)" by (rule dropWhile_last)
  also have "\<dots> = hd xs" using assms(1) by (simp add: last_rev)
  finally show "hd (rev (dropWhile P (rev xs))) = hd xs" using ne by (simp add: hd_rev)
qed

lemma trim_empty_all_ws: "trim s = [] \<Longrightarrow> dropWhile is_ws s = []"
proof (rule ccontr)
  assume e: "trim s = []" and ne: "dropWhile is_ws s \<noteq> []"
  from ne have "\<not> is_ws (hd (dropWhile is_ws s))" by (rule hd_dropWhile)
  with ne have "rev (dropWhile is_ws (rev (dropWhile is_ws s))) \<noteq> []"
    by (rule dropWhile_rev_keeps_head(1))
  moreover from e have "rev (dropWhile is_ws (rev (dropWhile is_ws s))) = []"
    by (simp only: trim_def)
  ultimately show False by blast
qed

lemma trim_no_leading_ws: "trim s \<noteq> [] \<Longrightarrow> \<not> is_ws (hd (trim s))"
proof -
  assume ne: "trim s \<noteq> []"
  define u where "u = dropWhile is_ws s"
  have u: "u \<noteq> []"
  proof
    assume "u = []"
    moreover have "trim s = rev (dropWhile is_ws (rev u))" by (simp only: trim_def u_def)
    ultimately have "trim s = []" by simp
    with ne show False by simp
  qed
  then have "\<not> is_ws (hd u)" unfolding u_def by (rule hd_dropWhile)
  with u show ?thesis using dropWhile_rev_keeps_head(2) [of u is_ws]
    by (simp add: trim_def u_def)
qed

lemma trim_no_trailing_ws: "trim s \<noteq> [] \<Longrightarrow> \<not> is_ws (last (trim s))"
proof -
  assume ne: "trim s \<noteq> []"
  then have "dropWhile is_ws (rev (dropWhile is_ws s)) \<noteq> []" by (simp add: trim_def)
  then have "\<not> is_ws (hd (dropWhile is_ws (rev (dropWhile is_ws s))))" by (rule hd_dropWhile)
  then show ?thesis using ne by (simp add: trim_def last_rev)
qed

lemma trim_clean: "s = [] \<or> (\<not> is_ws (hd s) \<and> \<not> is_ws (last s)) \<Longrightarrow> trim s = s"
proof (cases s)
  case Nil
  then show ?thesis by (simp add: trim_def)
next
  case (Cons c cs)
  assume "s = [] \<or> (\<not> is_ws (hd s) \<and> \<not> is_ws (last s))"
  with Cons have h: "\<not> is_ws c" and l: "\<not> is_ws (last s)" by auto
  from h Cons have "dropWhile is_ws s = s" by simp
  moreover have "dropWhile is_ws (rev s) = rev s"
  proof (cases "rev s")
    case Nil
    then show ?thesis by simp
  next
    case (Cons a as)
    have "hd (rev s) = last s" by (rule hd_rev)
    then have "a = last s" unfolding Cons by simp
    with l have "\<not> is_ws a" by simp
    then have "dropWhile is_ws (a # as) = a # as" by simp
    then show ?thesis unfolding Cons .
  qed
  ultimately show ?thesis by (simp add: trim_def)
qed

lemma trim_idem: "trim (trim s) = trim s"
  by (rule trim_clean) (auto dest: trim_no_leading_ws trim_no_trailing_ws)

lemma trim_dropWhile: "trim (dropWhile is_ws s) = trim s"
  by (simp add: trim_def)

lemma marker_not_ws: "is_marker c \<Longrightarrow> \<not> is_ws c"
  by (auto simp: is_marker_def is_ws_def)

lemma trim_Nil [simp]: "trim [] = []"
  by (simp add: trim_def)

subsection \<open>Bullets and summary\<close>

lemma trim_strip_marker: "trim (strip_marker l) = clean_line l"
  by (cases l) (simp_all add: strip_marker_def clean_line_def trim_dropWhile)

lemma clean_line_blank: "trim l = [] \<Longrightarrow> clean_line l = []"
proof (cases l)
  case Nil
  then show ?thesis by (simp add: clean_line_def)
next
  case (Cons c r)
  assume "trim l = []"
  then have "dropWhile is_ws l = []" by (rule trim_empty_all_ws)
  with Cons have "is_ws c" by (auto split: if_splits)
  then have "\<not> is_marker c" using marker_not_ws by blast
  with Cons \<open>trim l = []\<close> show ?thesis by (simp add: clean_line_def)
qed

lemma filter_map_prefilter:
  "(\<And>x. \<not> P x \<Longrightarrow> \<not> Q (f x)) \<Longrightarrow> filter Q (map f (filter P xs)) = filter Q (map f xs)"
  by (induction xs) auto

lemma feedback_bullets_eq:
  "feedback_bullets fb =
     (let bullets = filter (\<lambda>b. b \<noteq> []) (map clean_line (split_on 10 fb))
      in if bullets = [] \<and> trim fb \<noteq> [] then [trim fb] else bullets)"
proof -
  have "filter (\<lambda>b. b \<noteq> []) (map clean_line (filter (\<lambda>l. trim l \<noteq> []) (split_on 10 fb)))
        = filter (\<lambda>b. b \<noteq> []) (map clean_line (split_on 10 fb))"
    by (rule filter_map_prefilter) (simp add: clean_line_blank)
  then show ?thesis by (simp add: feedback_bullets_def trim_strip_marker Let_def)
qed

lemma clean_line_trimmed: "trim (clean_line l) = clean_line l"
  by (cases l) (simp_all add: clean_line_def trim_idem)

lemma feedback_bullets_trimmed:
  "b \<in> set (feedback_bullets fb) \<Longrightarrow> b \<noteq> [] \<and> trim b = b"
  by (auto simp: feedback_bullets_eq Let_def clean_line_trimmed trim_idem split: if_splits)

lemma split_on_not_empty: "split_on sep s \<noteq> []"
  by (induction s) (auto split: list.splits)

lemma first_part_takeWhile: "first_part sep s = takeWhile (\<lambda>c. c \<noteq> sep) s"
  by (induction s) (auto simp: first_part_def split: list.splits)

lemma takeWhile_prefix_props:
  assumes "x \<in> set r"
  shows "\<exists>rest. r = (takeWhile (\<lambda>c. c \<noteq> x) r @ [x]) @ rest"
proof -
  from assms have "dropWhile (\<lambda>c. c \<noteq> x) r \<noteq> []" by (auto simp: dropWhile_eq_Nil_conv)
  moreover from this have "hd (dropWhile (\<lambda>c. c \<noteq> x) r) = x"
    using hd_dropWhile [of "\<lambda>c. c \<noteq> x" r] by simp
  ultimately have "dropWhile (\<lambda>c. c \<noteq> x) r = x # tl (dropWhile (\<lambda>c. c \<noteq> x) r)"
    by (cases "dropWhile (\<lambda>c. c \<noteq> x) r") auto
  then have "r = (takeWhile (\<lambda>c. c \<noteq> x) r @ [x]) @ tl (dropWhile (\<lambda>c. c \<noteq> x) r)"
    by (metis append.assoc append_Cons append_Nil takeWhile_dropWhile_id)
  then show ?thesis by blast
qed

lemma summary_of_rationale:
  assumes "decisionRationale t = Some r" "r \<noteq> []"
  shows "summary_of upper t = takeWhile (\<lambda>c. c \<noteq> 46) r @ (if 46 \<in> set r then [46] else [])"
  using assms by (simp add: summary_of_def truthy_def str_of_def first_part_takeWhile)

lemma demo_feedback_fields:
  "promptFeedback demo_feedback_turn
     = Some (FeedbackText (js ''- Added steps'' @ [10, 10] @ js ''* Asked for examples ''))"
  "decisionRationale demo_feedback_turn = Some (js ''Conceptual question. Expanded for depth.'')"
  by (simp_all add: demo_feedback_turn_def demo_turn_def demo_response_def patch_defs)

text \<open>
  Claim C9, as the code has it. The transform always yields a result for a turn. For a
  feedback text, the bullets are, in the order of the lines, each line with one bullet
  marker dropped when the marker is the very first character, then trimmed, the empty
  ones left out; when nothing remains and the trimmed text is not empty, the trimmed
  text is the single bullet; every bullet is trimmed and non-empty. A feedback that is
  already a list is returned as it is, and no feedback gives no bullets. For a non-empty
  rationale that holds a period the summary is the rationale up to and including the
  first period, and the whole rationale when it holds none. For a null or empty
  rationale the summary is the fallback sentence built from the formatted intent, or
  from the word understanding when there is no intent.
\<close>

theorem reasoning_transform_result:
  "\<exists>rd. transformTurnToReasoningData upper (Some t) = Some rd
     \<and> (\<forall>fb. promptFeedback t = Some (FeedbackText fb) \<longrightarrow>
           rd_reasoningBullets rd
             = (let bullets = filter (\<lambda>b. b \<noteq> []) (map clean_line (split_on 10 fb))
                in if bullets = [] \<and> trim fb \<noteq> [] then [trim fb] else bullets)
           \<and> (\<forall>b \<in> set (rd_reasoningBullets rd). b \<noteq> [] \<and> trim b = b))
     \<and> (\<forall>bs. promptFeedback t = Some (FeedbackList bs) \<longrightarrow> rd_reasoningBullets rd = bs)
     \<and> (promptFeedback t = None \<longrightarrow> rd_reasoningBullets rd = [])
     \<and> (\<forall>r. decisionRationale t = Some r \<and> r \<noteq> [] \<longrightarrow>
           (46 \<in> set r \<longrightarrow>
              (\<exists>rest. r = rd_summary rd @ rest) \<and> last (rd_summary rd) = 46
              \<and> 46 \<notin> set (butlast (rd_summary rd)))
           \<and> (46 \<notin> set r \<longrightarrow> rd_summary rd = r))
     \<and> (decisionRationale t = None \<or> decisionRationale t = Some [] \<longrightarrow>
           rd_summary rd
             = js ''The agent interpreted your prompt as seeking ''
               @ (if truthy (intent t) then format_words upper (str_of (intent t))
                  else js ''understanding'')
               @ js ''.'')"
proof -
  define rd where
    "rd = \<lparr> rd_intent = str_of (intent t), rd_topic = str_of (topic t),
            rd_summary = summary_of upper t,
            rd_reasoningBullets = reasoning_bullets (promptFeedback t),
            rd_originalPrompt = originalPrompt t,
            rd_rewrittenPrompt = str_of (rewritten_prompt t) \<rparr>"
  have res: "transformTurnToReasoningData upper (Some t) = Some rd"
    by (simp add: transformTurnToReasoningData_def rd_def)
  have bullets: "rd_reasoningBullets rd
             = (let bullets = filter (\<lambda>b. b \<noteq> []) (map clean_line (split_on 10 fb))
                in if bullets = [] \<and> trim fb \<noteq> [] then [trim fb] else bullets)
           \<and> (\<forall>b \<in> set (rd_reasoningBullets rd). b \<noteq> [] \<and> trim b = b)"
    if fb: "promptFeedback t = Some (FeedbackText fb)" for fb
  proof (cases "fb = []")
    case True
    with fb show ?thesis by (simp add: rd_def reasoning_bullets_def clean_line_def)
  next
    case False
    with fb have eq: "rd_reasoningBullets rd = feedback_bullets fb"
      by (simp add: rd_def reasoning_bullets_def)
    have 1: "rd_reasoningBullets rd
             = (let bullets = filter (\<lambda>b. b \<noteq> []) (map clean_line (split_on 10 fb))
                in if bullets = [] \<and> trim fb \<noteq> [] then [trim fb] else bullets)"
      by (simp only: eq feedback_bullets_eq)
    have 2: "\<forall>b \<in> set (rd_reasoningBullets rd). b \<noteq> [] \<and> trim b = b"
      unfolding eq by (blast dest: feedback_bullets_trimmed)
    from 1 2 show ?thesis by (rule conjI)
  qed
  have list: "rd_reasoningBullets rd = bs" if "promptFeedback t = Some (FeedbackList bs)" for bs
    using that by (simp add: rd_def reasoning_bullets_def)
  have none: "promptFeedback t = None \<longrightarrow> rd_reasoningBullets rd = []"
    by (simp add: rd_def reasoning_bullets_def)
  have summ: "(46 \<in> set r \<longrightarrow>
              (\<exists>rest. r = rd_summary rd @ rest) \<and> last (rd_summary rd) = 46
              \<and> 46 \<notin> set (butlast (rd_summary rd)))
           \<and> (46 \<notin> set r \<longrightarrow> rd_summary rd = r)"
    if r: "decisionRationale t = Some r \<and> r \<noteq> []" for r
  proof -
    from r have s: "rd_summary rd = takeWhile (\<lambda>c. c \<noteq> 46) r @ (if 46 \<in> set r then [46] else [])"
      by (simp add: rd_def summary_of_rationale)
    have nodot: "46 \<notin> set (takeWhile (\<lambda>c. c \<noteq> 46) r)"
      by (auto dest: set_takeWhileD)
    show ?thesis
    proof (cases "46 \<in> set r")
      case True
      with s have s': "rd_summary rd = takeWhile (\<lambda>c. c \<noteq> 46) r @ [46]" by simp
      from True have "\<exists>rest. r = (takeWhile (\<lambda>c. c \<noteq> 46) r @ [46]) @ rest"
        by (rule takeWhile_prefix_props)
      then have "\<exists>rest. r = rd_summary rd @ rest" by (simp only: s')
      moreover have "last (rd_summary rd) = 46" by (simp only: s' last_snoc)
      moreover have "46 \<notin> set (butlast (rd_summary rd))"
        using nodot by (simp add: s')
      ultimately show ?thesis using True by blast
    next
      case False
      then have "takeWhile (\<lambda>c. c \<noteq> 46) r = r" by (induction r) auto
      with s False show ?thesis by simp
    qed
  qed
  have fallback: "decisionRationale t = None \<or> decisionRationale t = Some [] \<longrightarrow>
           rd_summary rd
             = js ''The agent interpreted your prompt as seeking ''
               @ (if truthy (intent t) then format_words upper (str_of (intent t))
                  else js ''understanding'')
               @ js ''.''"
    by (auto simp: rd_def summary_of_def truthy_def)
  show ?thesis
  proof (rule exI [of _ rd], intro conjI)
    show "transformTurnToReasoningData upper (Some t) = Some rd" by (rule res)
    show "\<forall>fb. promptFeedback t = Some (FeedbackText fb) \<longrightarrow>
           rd_reasoningBullets rd
             = (let bullets = filter (\<lambda>b. b \<noteq> []) (map clean_line (split_on 10 fb))
                in if bullets = [] \<and> trim fb \<noteq> [] then [trim fb] else bullets)
           \<and> (\<forall>b \<in> set (rd_reasoningBullets rd). b \<noteq> [] \<and> trim b = b)"
      using bullets by (intro allI impI)
    show "\<forall>bs. promptFeedback t = Some (FeedbackList bs) \<longrightarrow> rd_reasoningBullets rd = bs"
      using list by (intro allI impI)
    show "promptFeedback t = None \<longrightarrow> rd_reasoningBullets rd = []" by (rule none)
    show "\<forall>r. decisionRationale t = Some r \<and> r \<noteq> [] \<longrightarrow>
           (46 \<in> set r \<longrightarrow>
              (\<exists>rest. r = rd_summary rd @ rest) \<and> last (rd_summary rd) = 46
              \<and> 46 \<notin> set (butlast (rd_summary rd)))
           \<and> (46 \<notin> set r \<longrightarrow> rd_summary rd = r)"
      using summ by (intro allI impI)
    show "decisionRationale t = None \<or> decisionRationale t = Some [] \<longrightarrow>
           rd_summary rd
             = js ''The agent interpreted your prompt as seeking ''
               @ (if truthy (intent t) then format_words upper (str_of (intent t))
                  else js ''understanding'')
               @ js ''.''" by (rule fallback)
  qed
qed

text \<open>
  Two bullets with different markers and a blank line between them, and a rationale
  of two sentences.
\<close>

theorem reasoning_transform_result_witness:
  "promptFeedback demo_feedback_turn
     = Some (FeedbackText (js ''- Added steps'' @ [10, 10] @ js ''* Asked for examples ''))
   \<and> decisionRationale demo_feedback_turn = Some (js ''Conceptual question. Expanded for depth.'')
   \<and> map_option rd_reasoningBullets
        (transformTurnToReasoningData ascii_upper (Some demo_feedback_turn))
       = Some [js ''Added steps'', js ''Asked for examples'']
   \<and> map_option rd_summary (transformTurnToReasoningData ascii_upper (Some demo_feedback_turn))
       = Some (js ''Conceptual question.'')"
proof -
  from reasoning_transform_result [of ascii_upper demo_feedback_turn]
  obtain rd where res: "transformTurnToReasoningData ascii_upper (Some demo_feedback_turn) = Some rd"
    and b: "\<forall>fb. promptFeedback demo_feedback_turn = Some (FeedbackText fb) \<longrightarrow>
           rd_reasoningBullets rd
             = (let bullets = filter (\<lambda>b. b \<noteq> []) (map clean_line (split_on 10 fb))
                in if bullets = [] \<and> trim fb \<noteq> [] then [trim fb] else bullets)
           \<and> (\<forall>b \<in> set (rd_reasoningBullets rd). b \<noteq> [] \<and> trim b = b)"
    by (elim exE conjE) (rule that, assumption+)
  from b [rule_format, OF demo_feedback_fields(1), THEN conjunct1]
  have bullets: "rd_reasoningBullets rd = [js ''Added steps'', js ''Asked for examples'']"
    by (simp add: clean_line_def is_marker_def value_defs Let_def)
  from res have "rd_summary rd = summary_of ascii_upper demo_feedback_turn"
    by (auto simp: transformTurnToReasoningData_def)
  also have "\<dots> = js ''Conceptual question.''"
    by (simp add: summary_of_rationale [OF demo_feedback_fields(2)] js_def)
  finally have summary: "rd_summary rd = js ''Conceptual question.''" .
  from res bullets summary demo_feedback_fields show ?thesis by simp
qed

text \<open>
  Claim C9 in the words of the specification fails on an indented bullet, whose marker
  is not the first character of its line, and on a line that starts with two markers:
  in both the bullet still starts with a marker.
\<close>

theorem bullet_marker_kept_counterexample:
  "map_option rd_reasoningBullets
     (transformTurnToReasoningData ascii_upper (Some demo_indented_turn))
     = Some [js ''- Added steps'']
   \<and> \<not> spec_marker_stripped (js ''- Added steps'')
   \<and> map_option rd_reasoningBullets
       (transformTurnToReasoningData ascii_upper (Some demo_bold_turn))
       = Some [js ''* Added steps'']
   \<and> \<not> spec_marker_stripped (js ''* Added steps'')"
  by (simp add: feedback_demo_defs demo_turn_def patch_defs transformTurnToReasoningData_def
      reasoning_bullets_def feedback_bullets_def strip_marker_def is_marker_def
      spec_marker_stripped_def value_defs)

subsection \<open>The turns of the stored conversations\<close>

lemma stored_turns_simps [simp]:
  "stored_turns [] = []"
  "stored_turns ((k, c) # cs) = conv_turns c @ stored_turns cs"
  "stored_turns (cs @ cs') = stored_turns cs @ stored_turns cs'"
  by (simp_all add: stored_turns_def)








subsection \<open>The invariant of the reachable states\<close>


lemma turn_id_rehydrate [simp]: "turn_id (rehydrate t) = turn_id t"
  by (simp add: rehydrate_def)


lemma turn_id_patches [simp]:
  "turn_id (direct_answered_patch d t) = turn_id t"
  "turn_id (answer_failed_patch msg t) = turn_id t"
  "turn_id (answered_patch a t) = turn_id t"
  "turn_id (classified_patch d t) = turn_id t"
  "turn_id (classify_failed_patch msg t) = turn_id t"
  by (simp_all add: patch_defs)

lemma resolve_turn_fields [simp]:
  "turn_id (resolve_turn v d t) = turn_id t"
  "reasoningStage (resolve_turn v d t) = Some Answering"
  "chosenPromptVersion (resolve_turn v d t) \<noteq> None"
  by (simp_all add: resolve_turn_def chosen_patch_def Let_def)















lemma pending_switch_from [simp]:
  "pendingTurn (switchConversation_from cs cid target s) = pendingTurn s"
  by (simp add: switchConversation_from_def split: option.splits)
















lemma new_turn_fields [simp]:
  "turn_id (newTurn_direct tid s) = tid"
  "turn_id (newTurn_enhanced tid s) = tid"
  "reasoningStage (newTurn_enhanced tid s) = Some Classifying"
  "reasoningStage (newTurn_direct tid s) = Some Answering"
  "listed_ok (newTurn_direct tid s)"
  by (simp_all add: listed_ok_def newTurn_direct_def newTurn_enhanced_def)










subsection \<open>The stage of a turn\<close>


lemma stage_step_refl: "reasoningStage t = Some x \<Longrightarrow> stage_step t t"
  by (simp add: stage_step_def)


















end
